theory Spec2Isabelle
  imports Complex_Main "HOL-Library.Sublist" "HOL-Library.AList"
begin

section \<open>Python strings\<close>

text \<open>
  Python \<^verbatim>\<open>str\<close> values are modelled as \<^typ>\<open>string\<close>. The functions below are the
  string methods used by \<^verbatim>\<open>apklab-gradio-app.py\<close>.
\<close>

text \<open>\<^verbatim>\<open>sep.join(xs)\<close>\<close>

fun join :: "string \<Rightarrow> string list \<Rightarrow> string" where
  "join sep [] = []"
| "join sep [x] = x"
| "join sep (x # y # ys) = x @ sep @ join sep (y # ys)"

text \<open>\<^verbatim>\<open>s.split(sep)\<close> for a one-character separator: the result is never empty.\<close>

fun split_on :: "char \<Rightarrow> string \<Rightarrow> string list" where
  "split_on sep [] = [[]]"
| "split_on sep (c # cs) =
     (if c = sep then [] # split_on sep cs
      else (case split_on sep cs of [] \<Rightarrow> [[c]] | x # xs \<Rightarrow> (c # x) # xs))"

text \<open>\<^verbatim>\<open>sub in s\<close>\<close>

fun contains :: "string \<Rightarrow> string \<Rightarrow> bool" where
  "contains [] sub = (sub = [])"
| "contains (c # cs) sub = (prefix sub (c # cs) \<or> contains cs sub)"

text \<open>\<^verbatim>\<open>s.endswith(suf)\<close>\<close>

definition endswith :: "string \<Rightarrow> string \<Rightarrow> bool" where
  "endswith s suf = (length suf \<le> length s \<and> drop (length s - length suf) s = suf)"

text \<open>
  \<^verbatim>\<open>s.replace(old, new)\<close>: every non-overlapping occurrence of \<open>old\<close>, scanning from
  the left; an empty \<open>old\<close> matches before every character and at the end.
\<close>

function replace :: "string \<Rightarrow> string \<Rightarrow> string \<Rightarrow> string" where
  "replace [] old new = (if old = [] then new else [])"
| "replace (c # cs) old new =
     (if old = [] then new @ c # replace cs old new
      else if prefix old (c # cs) then new @ replace (drop (length old) (c # cs)) old new
      else c # replace cs old new)"
  by pat_completeness auto
termination
  by (relation "measure (\<lambda>(s, old, new). length s)") auto

text \<open>\<^verbatim>\<open>s.rfind(c)\<close> for a character: the last index, or \<open>None\<close> for Python's \<open>-1\<close>.\<close>

definition rfind :: "char \<Rightarrow> string \<Rightarrow> nat option" where
  "rfind c s = (case filter (\<lambda>i. s ! i = c) (rev [0..<length s]) of [] \<Rightarrow> None | i # _ \<Rightarrow> Some i)"

text \<open>\<^verbatim>\<open>str(n)\<close> for an integer, in decimal.\<close>

definition digit_char :: "nat \<Rightarrow> char" where
  "digit_char d = ''0123456789'' ! d"

function str_nat :: "nat \<Rightarrow> string" where
  "str_nat n = (if n < 10 then [digit_char n] else str_nat (n div 10) @ [digit_char (n mod 10)])"
  by pat_completeness auto
termination
  by (relation "measure id") auto

declare str_nat.simps [simp del]

definition str_int :: "int \<Rightarrow> string" where
  "str_int i = (if i < 0 then CHR ''-'' # str_nat (nat (- i)) else str_nat (nat i))"

text \<open>
  \<^verbatim>\<open>int(s)\<close> on a string: an optional sign and decimal digits. \<open>None\<close> is Python's
  \<^verbatim>\<open>ValueError\<close>. (Surrounding blanks and digit-group underscores, which Python also
  accepts, are not modelled: such strings are rejected here.)
\<close>

definition is_digit :: "char \<Rightarrow> bool" where
  "is_digit c = (48 \<le> (of_char c :: nat) \<and> (of_char c :: nat) \<le> 57)"

definition parse_nat :: "string \<Rightarrow> nat option" where
  "parse_nat s =
     (if s \<noteq> [] \<and> list_all is_digit s
      then Some (foldl (\<lambda>a c. 10 * a + (of_char c - 48)) 0 s) else None)"

definition py_int :: "string \<Rightarrow> int option" where
  "py_int s =
     (case s of
        [] \<Rightarrow> None
      | c # r \<Rightarrow>
          if c = CHR ''-'' then map_option (\<lambda>n. - int n) (parse_nat r)
          else if c = CHR ''+'' then map_option int (parse_nat r)
          else map_option int (parse_nat s))"

section \<open>Paths\<close>

text \<open>
  A \<^verbatim>\<open>pathlib.Path\<close> is modelled by its components below the root; the paths the
  program builds are absolute, since \<^verbatim>\<open>BASE_DIR\<close> is resolved. \<open>path_str\<close> is
  \<^verbatim>\<open>str(p)\<close>, \<open>path_parts\<close> reads a string as a path (empty and \<open>.\<close> components
  vanish, as in \<^verbatim>\<open>pathlib\<close>).
\<close>

type_synonym path = "string list"

definition path_str :: "path \<Rightarrow> string" where
  "path_str p = (if p = [] then ''/'' else concat (map (\<lambda>c. CHR ''/'' # c) p))"

definition path_parts :: "string \<Rightarrow> path" where
  "path_parts s = filter (\<lambda>c. c \<noteq> [] \<and> c \<noteq> ''.'') (split_on CHR ''/'' s)"

text \<open>\<^verbatim>\<open>Path(s).name\<close>: the final component, empty when there is none.\<close>

definition path_name :: "string \<Rightarrow> string" where
  "path_name s = (case path_parts s of [] \<Rightarrow> [] | c # cs \<Rightarrow> last (c # cs))"

text \<open>
  \<^verbatim>\<open>Path(s).stem\<close>: the name without its last suffix,
  \<^verbatim>\<open>i = name.rfind('.'); name[:i] if 0 < i < len(name) - 1 else name\<close>.
\<close>

definition path_stem :: "string \<Rightarrow> string" where
  "path_stem s =
     (let name = path_name s in
      case rfind CHR ''.'' name of
        None \<Rightarrow> name
      | Some i \<Rightarrow> if 0 < i \<and> i < length name - 1 then take i name else name)"

section \<open>The file system\<close>

text \<open>
  A file holds raw text or bytes, or is a ZIP archive, kept as the list of its members
  (member name and member content) in the order they were written. A directory is an
  association list from names to nodes, in listing order. The whole file system is the
  node of the root directory.
\<close>

datatype content = Raw string | Zip "(string \<times> content) list"

datatype node = File content | Dir "(string \<times> node) list"

datatype exn =
    GrError string
  | RequestException string
  | ZeroDivisionError
  | ValueError
  | FileNotFoundError
  | FileExistsError
  | NotADirectoryError
  | IsADirectoryError
  | UnicodeDecodeError
  | BadZipFile
  | ShutilError

fun lookup :: "node \<Rightarrow> path \<Rightarrow> node option" where
  "lookup n [] = Some n"
| "lookup (File c) (d # p) = None"
| "lookup (Dir es) (d # p) = (case map_of es d of None \<Rightarrow> None | Some n \<Rightarrow> lookup n p)"

definition is_dir :: "node \<Rightarrow> path \<Rightarrow> bool" where
  "is_dir n p = (case lookup n p of Some (Dir es) \<Rightarrow> True | _ \<Rightarrow> False)"

text \<open>The regular file at a path, if there is one.\<close>

definition file_at :: "node \<Rightarrow> path \<Rightarrow> content option" where
  "file_at n p = (case lookup n p of Some (File c) \<Rightarrow> Some c | _ \<Rightarrow> None)"

fun fresh_dirs :: "path \<Rightarrow> node" where
  "fresh_dirs [] = Dir []"
| "fresh_dirs (d # p) = Dir [(d, fresh_dirs p)]"

text \<open>
  \<^verbatim>\<open>os.makedirs(p, exist_ok)\<close>: creates the missing directories along \<open>p\<close>; fails when
  a component is a regular file, or when \<open>p\<close> is there already and \<open>exist_ok\<close> is false.
\<close>

fun makedirs :: "path \<Rightarrow> bool \<Rightarrow> node \<Rightarrow> exn + node" where
  "makedirs [] exist_ok (Dir es) = (if exist_ok then Inr (Dir es) else Inl FileExistsError)"
| "makedirs [] exist_ok (File c) = Inl FileExistsError"
| "makedirs (d # p) exist_ok (File c) = Inl NotADirectoryError"
| "makedirs (d # p) exist_ok (Dir es) =
     (case map_of es d of
        None \<Rightarrow> Inr (Dir (AList.update d (fresh_dirs p) es))
      | Some n \<Rightarrow>
          (case makedirs p exist_ok n of
             Inl e \<Rightarrow> Inl e
           | Inr n' \<Rightarrow> Inr (Dir (AList.update d n' es))))"

text \<open>
  Changing the entry at a path whose parent directory exists: \<open>f\<close> gets the old entry
  and gives the new one (\<open>None\<close> removes it) or fails.
\<close>

fun alter :: "path \<Rightarrow> (node option \<Rightarrow> exn + node option) \<Rightarrow> node \<Rightarrow> exn + node" where
  "alter [] f n = Inl IsADirectoryError"
| "alter (d # p) f (File c) = Inl NotADirectoryError"
| "alter (d # p) f (Dir es) =
     (if p = [] then
        (case f (map_of es d) of
           Inl e \<Rightarrow> Inl e
         | Inr None \<Rightarrow> Inr (Dir (AList.delete d es))
         | Inr (Some n') \<Rightarrow> Inr (Dir (AList.update d n' es)))
      else
        (case map_of es d of
           None \<Rightarrow> Inl FileNotFoundError
         | Some n \<Rightarrow>
             (case alter p f n of
                Inl e \<Rightarrow> Inl e
              | Inr n' \<Rightarrow> Inr (Dir (AList.update d n' es)))))"

text \<open>\<^verbatim>\<open>open(p, 'w')\<close>, writing \<open>c\<close>, and closing: creates or replaces a regular file.\<close>

definition write_file :: "path \<Rightarrow> content \<Rightarrow> node \<Rightarrow> exn + node" where
  "write_file p c =
     alter p (\<lambda>old. case old of Some (Dir es) \<Rightarrow> Inl IsADirectoryError | _ \<Rightarrow> Inr (Some (File c)))"

text \<open>\<^verbatim>\<open>shutil.rmtree(p)\<close>: removes a directory and everything below it.\<close>

definition rmtree :: "path \<Rightarrow> node \<Rightarrow> exn + node" where
  "rmtree p =
     alter p (\<lambda>old. case old of
                 None \<Rightarrow> Inl FileNotFoundError
               | Some (File c) \<Rightarrow> Inl NotADirectoryError
               | Some (Dir es) \<Rightarrow> Inr None)"

section \<open>Effects\<close>

text \<open>
  The state of a run: the file system, the trace of everything the program did to the
  outside (processes started, with what they returned; HTTP requests; calls of the
  progress callback; changes of the file system), and the number of UUIDs drawn so far.
\<close>

datatype event =
    Popen "string list" "path option" "string + (int \<times> string \<times> string)"
  | HttpGet string
  | Progress rat string
  | Makedirs path
  | FileWrite path content
  | FileAppend path string
  | Rmtree path
  | Move path path

record world =
  fs :: node
  trace :: "event list"
  uuid_count :: nat

text \<open>
  A computation either raises an exception or returns a value, and gives the new state.
\<close>

type_synonym 'a io = "world \<Rightarrow> (exn + 'a) \<times> world"

definition io_ret :: "'a \<Rightarrow> 'a io" where
  "io_ret x w = (Inr x, w)"

definition io_raise :: "exn \<Rightarrow> 'a io" where
  "io_raise e w = (Inl e, w)"

definition io_bind :: "'a io \<Rightarrow> ('a \<Rightarrow> 'b io) \<Rightarrow> 'b io" where
  "io_bind m f w = (case m w of (Inl e, w') \<Rightarrow> (Inl e, w') | (Inr x, w') \<Rightarrow> f x w')"

text \<open>\<^verbatim>\<open>try: m except Exception as e: h(e)\<close>\<close>

definition io_catch :: "'a io \<Rightarrow> (exn \<Rightarrow> 'a io) \<Rightarrow> 'a io" where
  "io_catch m h w = (case m w of (Inl e, w') \<Rightarrow> h e w' | (Inr x, w') \<Rightarrow> (Inr x, w'))"

definition emit :: "event \<Rightarrow> world \<Rightarrow> world" where
  "emit e w = w\<lparr>trace := trace w @ [e]\<rparr>"

text \<open>A change of the file system: on success the change is made and recorded.\<close>

definition fs_op :: "event \<Rightarrow> (node \<Rightarrow> exn + node) \<Rightarrow> unit io" where
  "fs_op e f w = (case f (fs w) of Inl x \<Rightarrow> (Inl x, w) | Inr n \<Rightarrow> (Inr (), emit e (w\<lparr>fs := n\<rparr>)))"

definition os_makedirs :: "path \<Rightarrow> bool \<Rightarrow> unit io" where
  "os_makedirs p exist_ok = fs_op (Makedirs p) (makedirs p exist_ok)"

definition open_write :: "path \<Rightarrow> content \<Rightarrow> unit io" where
  "open_write p c = fs_op (FileWrite p c) (write_file p c)"

definition shutil_rmtree :: "path \<Rightarrow> unit io" where
  "shutil_rmtree p = fs_op (Rmtree p) (rmtree p)"

text \<open>\<^verbatim>\<open>p.exists()\<close>\<close>

definition path_exists :: "path \<Rightarrow> bool io" where
  "path_exists p w = (Inr (lookup (fs w) p \<noteq> None), w)"

text \<open>
  \<^verbatim>\<open>open(p, 'r').read()\<close> in text mode. The bytes of an archive are not text. (Text is
  read as it was written: encodings and newline translation are not modelled.)
\<close>

definition read_text :: "path \<Rightarrow> string io" where
  "read_text p w =
     (case lookup (fs w) p of
        None \<Rightarrow> (Inl FileNotFoundError, w)
      | Some (Dir es) \<Rightarrow> (Inl IsADirectoryError, w)
      | Some (File (Raw s)) \<Rightarrow> (Inr s, w)
      | Some (File (Zip ms)) \<Rightarrow> (Inl UnicodeDecodeError, w))"

text \<open>The progress callback only observes.\<close>

definition progress :: "rat \<Rightarrow> string \<Rightarrow> unit io" where
  "progress fraction desc w = (Inr (), emit (Progress fraction desc) w)"

section \<open>APKProcessor.mitm\_patch\<close>

definition config_content :: string where
  \<open>config_content =
     ''<?xml version="1.0" encoding="utf-8"?>\<newline><network-security-config>\<newline>    <base-config cleartextTrafficPermitted="true">\<newline>        <trust-anchors>\<newline>            <certificates src="system" />\<newline>            <certificates src="user" />\<newline>        </trust-anchors>\<newline>    </base-config>\<newline></network-security-config>\<newline>''\<close>

definition mitm_patch :: "path \<Rightarrow> (bool \<times> string \<times> string) io" where
  \<open>mitm_patch project_dir =
     (let net_sec_config_path = project_dir @ [''res'', ''xml''] in
      io_bind (os_makedirs net_sec_config_path True) (\<lambda>_.
      io_bind (open_write (net_sec_config_path @ [''network_security_config.xml''])
                 (Raw config_content)) (\<lambda>_.
      let manifest_path = project_dir @ [''AndroidManifest.xml''] in
      io_bind (path_exists manifest_path) (\<lambda>manifest_exists.
      if manifest_exists then
        io_bind (read_text manifest_path) (\<lambda>content.
        io_bind
          (if \<not> contains content ''android:networkSecurityConfig'' then
             open_write manifest_path
               (Raw (replace content ''<application''
                  ''<application android:networkSecurityConfig="@xml/network_security_config"''))
           else io_ret ()) (\<lambda>_.
        io_ret (True,
          ''MITM patch applied to AndroidManifest.xml and network_security_config.xml created.'',
          '''')))
      else io_ret (False, ''AndroidManifest.xml not found.'', '''')))))\<close>

text \<open>Names for the paths and strings of \<open>mitm_patch\<close>.\<close>

abbreviation manifest_file :: "path \<Rightarrow> path" where
  "manifest_file project_dir \<equiv> project_dir @ [''AndroidManifest.xml'']"

abbreviation net_sec_dir :: "path \<Rightarrow> path" where
  "net_sec_dir project_dir \<equiv> project_dir @ [''res'', ''xml'']"

abbreviation net_sec_file :: "path \<Rightarrow> path" where
  "net_sec_file project_dir \<equiv> project_dir @ [''res'', ''xml'', ''network_security_config.xml'']"

abbreviation with_attribute :: "string \<Rightarrow> string" where
  \<open>with_attribute s \<equiv>
     replace s ''<application''
       ''<application android:networkSecurityConfig="@xml/network_security_config"''\<close>

abbreviation patch_ok :: "bool \<times> string \<times> string" where
  "patch_ok \<equiv> (True,
     ''MITM patch applied to AndroidManifest.xml and network_security_config.xml created.'', [])"

abbreviation patch_no_manifest :: "bool \<times> string \<times> string" where
  "patch_no_manifest \<equiv> (False, ''AndroidManifest.xml not found.'', [])"

section \<open>The environment\<close>

text \<open>
  What the program does not decide is a parameter: where the script lives, what a
  started process does (it either cannot be started, with the message of the exception,
  or exits with a return code, its standard output and its standard error; it may change
  the file system), what an HTTP server answers, which UUIDs are drawn, and
  \<^verbatim>\<open>str(e)\<close> for an exception.
\<close>

record response =
  http_error :: "string option"
  content_length :: "string option"
  chunks :: "string list"

record env =
  BASE_DIR :: path
  popen :: "string list \<Rightarrow> path option \<Rightarrow> world \<Rightarrow> (string + (int \<times> string \<times> string)) \<times> node"
  requests_get :: "string \<Rightarrow> world \<Rightarrow> string + response"
  uuid4_hex :: "nat \<Rightarrow> string"
  str_exn :: "exn \<Rightarrow> string"

definition TOOLS_DIR :: "env \<Rightarrow> path" where
  "TOOLS_DIR env = BASE_DIR env @ [''tools'']"

definition TEMP_DIR :: "env \<Rightarrow> path" where
  "TEMP_DIR env = BASE_DIR env @ [''temp'']"

definition DOWNLOADS_DIR :: "env \<Rightarrow> path" where
  "DOWNLOADS_DIR env = BASE_DIR env @ [''downloads'']"

definition APKTOOL_PATH :: "env \<Rightarrow> path" where
  "APKTOOL_PATH env = TOOLS_DIR env @ [''apktool.jar'']"

definition SIGNER_PATH :: "env \<Rightarrow> path" where
  "SIGNER_PATH env = TOOLS_DIR env @ [''uber-apk-signer.jar'']"

definition JADX_PATH :: "env \<Rightarrow> path" where
  "JADX_PATH env = TOOLS_DIR env @ [''jadx'', ''bin'', ''jadx'']"

text \<open>\<^verbatim>\<open>uuid.uuid4().hex[:8]\<close>\<close>

definition uuid4_hex8 :: "env \<Rightarrow> string io" where
  "uuid4_hex8 env w =
     (Inr (take 8 (uuid4_hex env (uuid_count w))), w\<lparr>uuid_count := Suc (uuid_count w)\<rparr>)"

text \<open>
  \<^verbatim>\<open>try: x = m except Exception as e: ...\<close> where the code goes on after the block: the
  outcome of \<open>m\<close> as a value.
\<close>

definition io_try :: "'a io \<Rightarrow> (exn + 'a) io" where
  "io_try m w = (case m w of (r, w') \<Rightarrow> (Inr r, w'))"

text \<open>The truth value of an optional string: \<^verbatim>\<open>None\<close> and \<^verbatim>\<open>""\<close> are false.\<close>

definition truthy :: "string option \<Rightarrow> bool" where
  "truthy s = (case s of None \<Rightarrow> False | Some v \<Rightarrow> v \<noteq> [])"

definition str_of :: "string option \<Rightarrow> string" where
  "str_of s = (case s of None \<Rightarrow> ''None'' | Some v \<Rightarrow> v)"

text \<open>An uploaded file, as the UI hands it over: an object with a \<^verbatim>\<open>name\<close>.\<close>

datatype upload = Upload (upload_name: string)

datatype download_button = DownloadButton (button_value: "string option") (visible: bool)

type_synonym outcome = "string \<times> download_button \<times> string"

section \<open>APKProcessor\<close>

text \<open>
  \<^verbatim>\<open>_run_command\<close>: starts the process, waits for it, and never raises: an exception
  becomes \<^verbatim>\<open>(False, "", str(e))\<close>.
\<close>

definition run_command :: "env \<Rightarrow> string list \<Rightarrow> path option \<Rightarrow> (bool \<times> string \<times> string) io" where
  "run_command env command cwd w =
     (let (r, n) = popen env command cwd w;
          w' = emit (Popen command cwd r) (w\<lparr>fs := n\<rparr>)
      in case r of
           Inl msg \<Rightarrow> (Inr (False, [], msg), w')
         | Inr (returncode, stdout, stderr) \<Rightarrow>
             if returncode \<noteq> 0 then (Inr (False, stdout, stderr), w')
             else (Inr (True, stdout, stderr), w'))"

definition check_tools :: "env \<Rightarrow> (bool \<times> string) io" where
  "check_tools env =
     (let logs = [] in
      io_bind (run_command env [''java'', ''--version''] None) (\<lambda>(success, stdout, stderr).
      if \<not> success then
        io_ret (False,
          ''Java (JDK) not found. Please install it and make sure it's in your PATH.'')
      else
        let logs = logs @ [''Java Version:\<newline>'' @ stdout @ stderr] in
        io_bind (path_exists (APKTOOL_PATH env)) (\<lambda>apktool_exists.
        if \<not> apktool_exists then
          io_ret (False, ''apktool.jar not found at '' @ path_str (APKTOOL_PATH env))
        else
          let logs = logs @ [''apktool.jar found.''] in
          io_bind (path_exists (SIGNER_PATH env)) (\<lambda>signer_exists.
          if \<not> signer_exists then
            io_ret (False, ''uber-apk-signer.jar not found at '' @ path_str (SIGNER_PATH env))
          else
            let logs = logs @ [''uber-apk-signer.jar found.''] in
            io_bind (path_exists (JADX_PATH env)) (\<lambda>jadx_exists.
            if \<not> jadx_exists then
              io_ret (False, ''JADX not found at '' @ path_str (JADX_PATH env))
            else
              let logs = logs @ [''JADX found.''] in
              io_ret (True, join ''\<newline>'' logs))))))"

text \<open>\<^verbatim>\<open>f.write(chunk)\<close> on a file opened for writing.\<close>

definition append_file :: "path \<Rightarrow> string \<Rightarrow> node \<Rightarrow> exn + node" where
  "append_file p s =
     alter p (\<lambda>old. case old of
                 Some (File (Raw t)) \<Rightarrow> Inr (Some (File (Raw (t @ s))))
               | _ \<Rightarrow> Inl FileNotFoundError)"

definition file_append :: "path \<Rightarrow> string \<Rightarrow> unit io" where
  "file_append p s = fs_op (FileAppend p s) (append_file p s)"

text \<open>\<^verbatim>\<open>a / b\<close> on integers.\<close>

definition truediv :: "int \<Rightarrow> int \<Rightarrow> rat io" where
  "truediv a b = (if b = 0 then io_raise ZeroDivisionError else io_ret (of_int a / of_int b))"

text \<open>The loop over \<^verbatim>\<open>response.iter_content(chunk_size=8192)\<close> in \<^verbatim>\<open>download_apk\<close>.\<close>

fun download_loop :: "path \<Rightarrow> int \<Rightarrow> string list \<Rightarrow> int \<Rightarrow> unit io" where
  "download_loop apk_path total_size [] bytes_downloaded = io_ret ()"
| "download_loop apk_path total_size (chunk # rest) bytes_downloaded =
     io_bind (file_append apk_path chunk) (\<lambda>_.
     let bytes_downloaded = bytes_downloaded + int (length chunk) in
     io_bind (truediv bytes_downloaded total_size) (\<lambda>fraction.
     io_bind (progress fraction
        (''Downloading: '' @ str_int bytes_downloaded @ ''/'' @ str_int total_size @ '' bytes''))
     (\<lambda>_. download_loop apk_path total_size rest bytes_downloaded)))"

definition download_apk :: "env \<Rightarrow> string \<Rightarrow> string io" where
  "download_apk env url =
     io_catch
       (let apk_name = last (split_on CHR ''/'' url);
            apk_name = (if \<not> endswith apk_name ''.apk'' then ''downloaded.apk'' else apk_name);
            apk_path = TEMP_DIR env @ [apk_name]
        in
        io_bind (\<lambda>w. (case requests_get env url w of
                         Inl msg \<Rightarrow> Inl (RequestException msg)
                       | Inr response \<Rightarrow> Inr response, emit (HttpGet url) w)) (\<lambda>response.
        io_bind (case http_error response of
                   Some msg \<Rightarrow> io_raise (RequestException msg)
                 | None \<Rightarrow> io_ret ()) (\<lambda>_.
        io_bind (case content_length response of
                   None \<Rightarrow> io_ret 0
                 | Some s \<Rightarrow> (case py_int s of
                                 None \<Rightarrow> io_raise ValueError
                               | Some i \<Rightarrow> io_ret i)) (\<lambda>total_size.
        let bytes_downloaded = 0 in
        io_bind (open_write apk_path (Raw [])) (\<lambda>_.
        io_bind (download_loop apk_path total_size (chunks response) bytes_downloaded) (\<lambda>_.
        io_ret (path_str apk_path)))))))
       (\<lambda>e. case e of
              RequestException msg \<Rightarrow>
                io_raise (GrError (''Failed to download APK from URL: '' @ str_exn env e))
            | _ \<Rightarrow> io_raise e)"

definition apktool_decode :: "env \<Rightarrow> string \<Rightarrow> path \<Rightarrow> string list \<Rightarrow> (bool \<times> string \<times> string) io" where
  "apktool_decode env apk_path output_dir options =
     (let command = [''java'', ''-jar'', path_str (APKTOOL_PATH env), ''d'', apk_path,
                     ''-o'', path_str output_dir, ''-f''] @ options
      in run_command env command None)"

definition jadx_decompile :: "env \<Rightarrow> string \<Rightarrow> path \<Rightarrow> string list \<Rightarrow> (bool \<times> string \<times> string) io" where
  "jadx_decompile env apk_path output_dir options =
     (let java_src_dir = output_dir @ [''java_sources''];
          command = [path_str (JADX_PATH env), ''-r'', ''-q'', ''-ds'', path_str java_src_dir]
                    @ options @ [apk_path]
      in run_command env command (Some output_dir))"

definition quark_analyze :: "env \<Rightarrow> string \<Rightarrow> path \<Rightarrow> (bool \<times> string \<times> string) io" where
  "quark_analyze env apk_path output_dir =
     (let report_path = output_dir @ [''quark-report.json''];
          command = [''quark'', ''analyze'', ''-a'', apk_path, ''-o'', path_str report_path]
      in run_command env command None)"

definition apktool_build :: "env \<Rightarrow> path \<Rightarrow> path \<Rightarrow> string list \<Rightarrow> (bool \<times> string \<times> string) io" where
  "apktool_build env project_dir output_apk options =
     (let command = [''java'', ''-jar'', path_str (APKTOOL_PATH env), ''b'', path_str project_dir,
                     ''-o'', path_str output_apk] @ options
      in run_command env command None)"

definition sign_apk :: "env \<Rightarrow> path \<Rightarrow> string \<Rightarrow> string \<Rightarrow> string \<Rightarrow> string \<Rightarrow> (bool \<times> string \<times> string) io" where
  "sign_apk env apk_path keystore_path ks_pass ks_alias key_pass =
     (let command = [''java'', ''-jar'', path_str (SIGNER_PATH env),
                     ''--apks'', path_str apk_path,
                     ''--ks'', keystore_path,
                     ''--ksPass'', ks_pass,
                     ''--ksAlias'', ks_alias,
                     ''--keyPass'', key_pass]
      in run_command env command None)"

subsection \<open>create\_zip\<close>

text \<open>
  \<^verbatim>\<open>os.walk(top)\<close>, top-down: for every directory below \<open>top\<close> its path, the names of
  its subdirectories and the names of its files. Nothing when \<open>top\<close> is not a directory.
\<close>

fun os_walk :: "path \<Rightarrow> node \<Rightarrow> (path \<times> string list \<times> string list) list" where
  "os_walk dp (File c) = []"
| "os_walk dp (Dir es) =
     (dp, map fst (filter (\<lambda>(name, n). case n of Dir _ \<Rightarrow> True | File _ \<Rightarrow> False) es),
          map fst (filter (\<lambda>(name, n). case n of Dir _ \<Rightarrow> False | File _ \<Rightarrow> True) es))
     # concat (map (\<lambda>(name, n). case n of Dir _ \<Rightarrow> os_walk (dp @ [name]) n | File _ \<Rightarrow> []) es)"

definition walk :: "path \<Rightarrow> (path \<times> string list \<times> string list) list io" where
  "walk top_dir w =
     (Inr (case lookup (fs w) top_dir of None \<Rightarrow> [] | Some n \<Rightarrow> os_walk top_dir n), w)"

text \<open>\<^verbatim>\<open>os.path.relpath(p, start)\<close> for absolute paths.\<close>

definition relpath :: "path \<Rightarrow> path \<Rightarrow> string" where
  "relpath p start =
     (let i = length (longest_common_prefix p start);
          rel = replicate (length start - i) ''..'' @ drop i p
      in if rel = [] then ''.'' else join ''/'' rel)"

text \<open>Reading a file as it is, for \<^verbatim>\<open>ZipFile.write\<close>.\<close>

definition read_content :: "path \<Rightarrow> content io" where
  "read_content p w =
     (case lookup (fs w) p of
        None \<Rightarrow> (Inl FileNotFoundError, w)
      | Some (Dir es) \<Rightarrow> (Inl IsADirectoryError, w)
      | Some (File c) \<Rightarrow> (Inr c, w))"

text \<open>The inner loop of \<^verbatim>\<open>create_zip\<close>, over the files of one directory.\<close>

fun zip_files ::
  "path \<Rightarrow> path \<Rightarrow> string list \<Rightarrow> (string \<times> content) list \<Rightarrow> (string \<times> content) list io" where
  "zip_files source_dir dp [] zipf = io_ret zipf"
| "zip_files source_dir dp (file # files) zipf =
     (let file_path = dp @ [file];
          archive_path = relpath file_path source_dir
      in io_bind (read_content file_path) (\<lambda>c.
         zip_files source_dir dp files (zipf @ [(archive_path, c)])))"

text \<open>The outer loop, over what \<^verbatim>\<open>os.walk\<close> yields.\<close>

fun zip_walk ::
  "path \<Rightarrow> (path \<times> string list \<times> string list) list \<Rightarrow> (string \<times> content) list
   \<Rightarrow> (string \<times> content) list io" where
  "zip_walk source_dir [] zipf = io_ret zipf"
| "zip_walk source_dir ((dp, dirs, files) # rest) zipf =
     io_bind (zip_files source_dir dp files zipf) (\<lambda>zipf. zip_walk source_dir rest zipf)"

text \<open>
  Opening the archive for writing creates it, empty; closing it writes its members.
\<close>

definition create_zip :: "path \<Rightarrow> path \<Rightarrow> string io" where
  "create_zip source_dir zip_path =
     io_bind (open_write zip_path (Zip [])) (\<lambda>_.
     io_bind (walk source_dir) (\<lambda>walked.
     io_bind (zip_walk source_dir walked []) (\<lambda>zipf.
     io_bind (open_write zip_path (Zip zipf)) (\<lambda>_.
     io_ret (path_str zip_path)))))"

subsection \<open>ZipFile.extractall and shutil.move\<close>

text \<open>
  Extracting one member: the member name is split at \<open>/\<close>, and empty, \<open>.\<close> and \<open>..\<close>
  components are dropped; the directories above the target are created when missing; a
  member whose name ends in \<open>/\<close> is a directory, any other is written as a file.
\<close>

definition extract_member :: "path \<Rightarrow> string \<times> content \<Rightarrow> unit io" where
  "extract_member dest member =
     (let arcname = filter (\<lambda>x. x \<noteq> [] \<and> x \<noteq> ''.'' \<and> x \<noteq> ''..'')
                      (split_on CHR ''/'' (fst member));
          targetpath = dest @ arcname;
          upperdirs = butlast targetpath
      in
      io_bind (path_exists upperdirs) (\<lambda>upper_exists.
      io_bind (if \<not> upper_exists then os_makedirs upperdirs False else io_ret ()) (\<lambda>_.
      if endswith (fst member) ''/'' then
        (\<lambda>w. if \<not> is_dir (fs w) targetpath then os_makedirs targetpath False w
              else io_ret () w)
      else open_write targetpath (snd member))))"

fun extract_members :: "path \<Rightarrow> (string \<times> content) list \<Rightarrow> unit io" where
  "extract_members dest [] = io_ret ()"
| "extract_members dest (member # members) =
     io_bind (extract_member dest member) (\<lambda>_. extract_members dest members)"

text \<open>\<^verbatim>\<open>with zipfile.ZipFile(zip_path, 'r') as zip_ref: zip_ref.extractall(dest)\<close>\<close>

definition zip_extractall :: "path \<Rightarrow> path \<Rightarrow> unit io" where
  "zip_extractall zip_path dest =
     io_bind (read_content zip_path) (\<lambda>c.
     case c of
       Raw s \<Rightarrow> io_raise BadZipFile
     | Zip members \<Rightarrow> extract_members dest members)"

text \<open>
  \<^verbatim>\<open>shutil.move(src, dst)\<close>: into \<open>dst\<close> when that is a directory, onto \<open>dst\<close> otherwise.
\<close>

definition move :: "path \<Rightarrow> path \<Rightarrow> node \<Rightarrow> exn + node" where
  "move src dst n =
     (case lookup n src of
        None \<Rightarrow> Inl FileNotFoundError
      | Some x \<Rightarrow>
          if src = [] then Inl ShutilError
          else
            let real_dst = (if is_dir n dst then dst @ [last src] else dst) in
            if is_dir n dst \<and> lookup n real_dst \<noteq> None then Inl ShutilError
            else
              (case alter src (\<lambda>old. Inr None) n of
                 Inl e \<Rightarrow> Inl e
               | Inr n1 \<Rightarrow>
                   alter real_dst
                     (\<lambda>old. case old of
                        Some (Dir es) \<Rightarrow> Inl IsADirectoryError
                      | _ \<Rightarrow> Inr (Some x)) n1))"

definition shutil_move :: "path \<Rightarrow> path \<Rightarrow> unit io" where
  "shutil_move src dst = fs_op (Move src dst) (move src dst)"

section \<open>process\_apk\<close>

text \<open>
  The body of \<^verbatim>\<open>process_apk\<close> is cut at its numbered comments: each function below is
  the rest of the body from that comment on, given the local variables that are live
  there. \<open>process_apk\<close> itself is steps 1 and 2.
\<close>

text \<open>Steps 9 and 10: create the ZIP archive, remove the project directory.\<close>

definition process_apk_step9 :: "env \<Rightarrow> string \<Rightarrow> path \<Rightarrow> string list \<Rightarrow> outcome io" where
  "process_apk_step9 env project_name project_dir logs =
     io_bind (progress (95 / 100) ''Creating ZIP archive...'') (\<lambda>_.
     let zip_name = project_name @ ''-decompiled.zip'';
         zip_path = DOWNLOADS_DIR env @ [zip_name]
     in
     io_bind (create_zip project_dir zip_path) (\<lambda>_.
     let logs = logs @ [''\<newline>Project zipped to '' @ path_str zip_path] in
     io_bind (shutil_rmtree project_dir) (\<lambda>_.
     io_ret (''Success! Project decompiled and zipped.'',
             DownloadButton (Some (path_str zip_path)) True,
             join ''\<newline>'' logs))))"

text \<open>Step 8: optional JADX decompilation.\<close>

definition process_apk_step8 ::
  "env \<Rightarrow> string \<Rightarrow> string \<Rightarrow> path \<Rightarrow> string list \<Rightarrow> string list \<Rightarrow> string list \<Rightarrow> outcome io" where
  "process_apk_step8 env apk_path project_name project_dir decode_options jadx_opts logs =
     (if ''decompile_java'' \<in> set decode_options then
        io_bind (progress (8 / 10) ''Decompiling Java with JADX...'') (\<lambda>_.
        let logs = logs @ [''\<newline>--- JADX Decompilation ---\<newline>Running with options: ''
                           @ join '' '' jadx_opts] in
        io_bind (jadx_decompile env apk_path project_dir jadx_opts) (\<lambda>(success, stdout, stderr).
        let logs = logs @ [''JADX STDOUT:\<newline>'' @ stdout];
            logs = logs @ [''JADX STDERR:\<newline>'' @ stderr];
            logs = (if \<not> success then logs @ [''JADX decompilation failed.''] else logs)
        in process_apk_step9 env project_name project_dir logs))
      else process_apk_step9 env project_name project_dir logs)"

text \<open>Step 7: optional Quark analysis.\<close>

definition process_apk_step7 ::
  "env \<Rightarrow> string \<Rightarrow> string \<Rightarrow> path \<Rightarrow> string list \<Rightarrow> string list \<Rightarrow> string list \<Rightarrow> outcome io" where
  "process_apk_step7 env apk_path project_name project_dir decode_options jadx_opts logs =
     (if ''quark_analysis'' \<in> set decode_options then
        io_bind (progress (6 / 10) ''Analyzing with Quark-Engine...'') (\<lambda>_.
        let logs = logs @ [''\<newline>--- Quark Engine Analysis ---''] in
        io_bind (quark_analyze env apk_path project_dir) (\<lambda>(success, stdout, stderr).
        let logs = logs @ [''Quark STDOUT:\<newline>'' @ stdout];
            logs = logs @ [''Quark STDERR:\<newline>'' @ stderr];
            logs = (if \<not> success then logs @ [''Quark analysis failed.''] else logs)
        in process_apk_step8 env apk_path project_name project_dir decode_options jadx_opts logs))
      else process_apk_step8 env apk_path project_name project_dir decode_options jadx_opts logs)"

text \<open>Step 6: optional MITM patch.\<close>

definition process_apk_step6 ::
  "env \<Rightarrow> string \<Rightarrow> string \<Rightarrow> path \<Rightarrow> string list \<Rightarrow> string list \<Rightarrow> string list \<Rightarrow> outcome io" where
  "process_apk_step6 env apk_path project_name project_dir decode_options jadx_opts logs =
     (if ''mitm_patch'' \<in> set decode_options then
        io_bind (progress (5 / 10) ''Applying MITM patch...'') (\<lambda>_.
        let logs = logs @ [''\<newline>--- MITM Patch ---''] in
        io_bind (mitm_patch project_dir) (\<lambda>(success, out, err).
        let logs = logs @ [out];
            logs = logs @ [err]
        in process_apk_step7 env apk_path project_name project_dir decode_options jadx_opts logs))
      else process_apk_step7 env apk_path project_name project_dir decode_options jadx_opts logs)"

text \<open>Step 5: decode with Apktool; a failure ends the run.\<close>

definition process_apk_step5 ::
  "env \<Rightarrow> string \<Rightarrow> string \<Rightarrow> path \<Rightarrow> string list \<Rightarrow> string list \<Rightarrow> string list \<Rightarrow> string list
   \<Rightarrow> outcome io" where
  "process_apk_step5 env apk_path project_name project_dir decode_options apktool_opts jadx_opts logs =
     io_bind (progress (2 / 10) ''Decompiling with Apktool...'') (\<lambda>_.
     let logs = logs @ [''\<newline>--- Apktool Decompilation ---\<newline>Running with options: ''
                        @ join '' '' apktool_opts] in
     io_bind (apktool_decode env apk_path project_dir apktool_opts) (\<lambda>(success, stdout, stderr).
     let logs = logs @ [''Apktool STDOUT:\<newline>'' @ stdout];
         logs = logs @ [''Apktool STDERR:\<newline>'' @ stderr]
     in
     if \<not> success then
       io_ret (''Apktool failed.'', DownloadButton None False, join ''\<newline>'' logs)
     else process_apk_step6 env apk_path project_name project_dir decode_options jadx_opts logs))"

text \<open>Steps 3 and 4: set up the project directory, parse the options.\<close>

definition process_apk_step3 :: "env \<Rightarrow> string \<Rightarrow> string list \<Rightarrow> string list \<Rightarrow> outcome io" where
  "process_apk_step3 env apk_path decode_options logs =
     (let project_name = path_stem apk_path in
      io_bind (uuid4_hex8 env) (\<lambda>suffix.
      let project_dir = TEMP_DIR env @ [project_name @ ''-decompiled-'' @ suffix] in
      io_bind (path_exists project_dir) (\<lambda>project_dir_exists.
      io_bind (if project_dir_exists then shutil_rmtree project_dir else io_ret ()) (\<lambda>_.
      io_bind (os_makedirs project_dir False) (\<lambda>_.
      let logs = logs @ [''Created project directory: '' @ path_str project_dir];
          apktool_opts = [];
          jadx_opts = [];
          apktool_opts = (if ''no_src'' \<in> set decode_options then apktool_opts @ [''-s'']
                          else apktool_opts);
          apktool_opts = (if ''no_res'' \<in> set decode_options then apktool_opts @ [''-r'']
                          else apktool_opts);
          apktool_opts = (if ''force_manifest'' \<in> set decode_options
                          then apktool_opts @ [''--force-manifest''] else apktool_opts);
          apktool_opts = (if ''no_assets'' \<in> set decode_options
                          then apktool_opts @ [''--no-assets''] else apktool_opts);
          apktool_opts = (if ''only_main_classes'' \<in> set decode_options
                          then apktool_opts @ [''--only-main-classes''] else apktool_opts);
          apktool_opts = (if ''no_debug_info'' \<in> set decode_options then apktool_opts @ [''-b'']
                          else apktool_opts);
          jadx_opts = (if ''deobf'' \<in> set decode_options then jadx_opts @ [''--deobf'']
                       else jadx_opts);
          jadx_opts = (if ''show_bad_code'' \<in> set decode_options
                       then jadx_opts @ [''--show-bad-code''] else jadx_opts)
      in process_apk_step5 env apk_path project_name project_dir decode_options
           apktool_opts jadx_opts logs)))))"

text \<open>Steps 1 and 2: check the tools, determine the APK path.\<close>

definition process_apk :: "env \<Rightarrow> upload option \<Rightarrow> string option \<Rightarrow> string list \<Rightarrow> outcome io" where
  "process_apk env apk_file apk_url decode_options =
     (let logs = [] in
      io_bind (check_tools env) (\<lambda>(tools_ok, tool_logs).
      let logs = logs @ [''--- Tool Check ---\<newline>'' @ tool_logs] in
      if \<not> tools_ok then
        io_ret (''Error: Tools are not configured correctly.'', DownloadButton None False,
                join ''\<newline>'' logs)
      else if apk_file = None \<and> \<not> truthy apk_url then
        io_raise (GrError ''Please upload an APK file or provide a URL.'')
      else
        (case apk_file of
           Some f \<Rightarrow>
             let apk_path = upload_name f;
                 logs = logs @ [''Processing uploaded file: '' @ apk_path]
             in process_apk_step3 env apk_path decode_options logs
         | None \<Rightarrow>
             let logs = logs @ [''Downloading APK from URL: '' @ str_of apk_url] in
             io_bind (progress 0 ''Downloading APK...'') (\<lambda>_.
             io_bind (io_try (download_apk env (str_of apk_url))) (\<lambda>downloaded.
             case downloaded of
               Inl e \<Rightarrow>
                 io_ret (''Error downloading APK: '' @ str_exn env e, DownloadButton None False,
                         join ''\<newline>'' logs)
             | Inr apk_path \<Rightarrow>
                 let logs = logs @ [''APK downloaded to: '' @ apk_path] in
                 process_apk_step3 env apk_path decode_options logs)))))"

section \<open>rebuild\_and\_sign\_apk\<close>

text \<open>Step 4 and 5: sign the APK, move it to the downloads directory, clean up.\<close>

definition rebuild_step4 ::
  "env \<Rightarrow> upload \<Rightarrow> upload \<Rightarrow> string \<Rightarrow> string \<Rightarrow> string \<Rightarrow> path \<Rightarrow> path \<Rightarrow> path
   \<Rightarrow> string list \<Rightarrow> outcome io" where
  "rebuild_step4 env project_zip keystore_file ks_pass alias key_pass project_dir output_dir
       unsigned_apk_path logs =
     io_bind (progress (8 / 10) ''Signing APK...'') (\<lambda>_.
     let logs = logs @ [''\<newline>--- Signing APK ---''] in
     io_bind (sign_apk env unsigned_apk_path (upload_name keystore_file) ks_pass alias key_pass)
       (\<lambda>(success, stdout, stderr).
     let logs = logs @ [''Signer STDOUT:\<newline>'' @ stdout];
         logs = logs @ [''Signer STDERR:\<newline>'' @ stderr]
     in
     if \<not> success then
       io_bind (shutil_rmtree project_dir) (\<lambda>_.
       io_bind (shutil_rmtree output_dir) (\<lambda>_.
       io_ret (''Signing failed.'', DownloadButton None False, join ''\<newline>'' logs)))
     else
       let signed_apk_path =
             output_dir @ [path_stem (path_str unsigned_apk_path) @ ''-aligned-signed.apk''];
           final_apk_path =
             DOWNLOADS_DIR env @ [path_stem (upload_name project_zip) @ ''-signed.apk'']
       in
       io_bind (shutil_move signed_apk_path final_apk_path) (\<lambda>_.
       io_bind (shutil_rmtree project_dir) (\<lambda>_.
       io_bind (shutil_rmtree output_dir) (\<lambda>_.
       io_ret (''Success! APK rebuilt and signed.'',
               DownloadButton (Some (path_str final_apk_path)) True,
               join ''\<newline>'' logs))))))"

text \<open>Step 3: rebuild with Apktool; a failure ends the run, after cleaning up.\<close>

definition rebuild_step3 ::
  "env \<Rightarrow> upload \<Rightarrow> string list \<Rightarrow> upload \<Rightarrow> string \<Rightarrow> string \<Rightarrow> string \<Rightarrow> path \<Rightarrow> path
   \<Rightarrow> string list \<Rightarrow> outcome io" where
  "rebuild_step3 env project_zip build_options keystore_file ks_pass alias key_pass project_dir
       output_dir logs =
     (let unsigned_apk_path = output_dir @ [''rebuilt-unsigned.apk''];
          build_opts = [];
          build_opts = (if ''no_crunch'' \<in> set build_options then build_opts @ [''--no-crunch'']
                        else build_opts);
          build_opts = (if ''use_aapt2'' \<in> set build_options then build_opts @ [''--use-aapt2'']
                        else build_opts)
      in
      io_bind (progress (3 / 10) ''Rebuilding with Apktool...'') (\<lambda>_.
      let logs = logs @ [''\<newline>--- Apktool Rebuild ---\<newline>Running with options: ''
                         @ join '' '' build_opts] in
      io_bind (apktool_build env project_dir unsigned_apk_path build_opts)
        (\<lambda>(success, stdout, stderr).
      let logs = logs @ [''Apktool STDOUT:\<newline>'' @ stdout];
          logs = logs @ [''Apktool STDERR:\<newline>'' @ stderr]
      in
      if \<not> success then
        io_bind (shutil_rmtree project_dir) (\<lambda>_.
        io_bind (shutil_rmtree output_dir) (\<lambda>_.
        io_ret (''Apktool rebuild failed.'', DownloadButton None False, join ''\<newline>'' logs)))
      else
        rebuild_step4 env project_zip keystore_file ks_pass alias key_pass project_dir output_dir
          unsigned_apk_path logs)))"

text \<open>The checks of the inputs, and steps 1 and 2: set up the directories, unzip.\<close>

definition rebuild_and_sign_apk ::
  "env \<Rightarrow> upload option \<Rightarrow> string list \<Rightarrow> upload option \<Rightarrow> string option \<Rightarrow> string option
   \<Rightarrow> string option \<Rightarrow> outcome io" where
  "rebuild_and_sign_apk env project_zip build_options keystore_file ks_pass alias key_pass =
     (let logs = [] in
      case project_zip of
        None \<Rightarrow> io_raise (GrError ''Please upload a project ZIP file.'')
      | Some pz \<Rightarrow>
      (case keystore_file of
         None \<Rightarrow> io_raise (GrError ''Please upload a keystore file.'')
       | Some ks \<Rightarrow>
       if \<not> (truthy ks_pass \<and> truthy alias \<and> truthy key_pass) then
         io_raise (GrError ''Please provide all keystore credentials.'')
       else
         io_bind (uuid4_hex8 env) (\<lambda>suffix1.
         let project_dir = TEMP_DIR env @ [''rebuild-'' @ suffix1] in
         io_bind (uuid4_hex8 env) (\<lambda>suffix2.
         let output_dir = TEMP_DIR env @ [''rebuild-out-'' @ suffix2] in
         io_bind (os_makedirs project_dir True) (\<lambda>_.
         io_bind (os_makedirs output_dir True) (\<lambda>_.
         io_bind (progress (1 / 10) ''Unzipping project...'') (\<lambda>_.
         io_bind (zip_extractall (path_parts (upload_name pz)) project_dir) (\<lambda>_.
         let logs = logs @ [''Project unzipped to '' @ path_str project_dir] in
         rebuild_step3 env pz build_options ks (str_of ks_pass) (str_of alias) (str_of key_pass)
           project_dir output_dir logs))))))))"

section \<open>Observations on runs\<close>

definition is_decode :: "env \<Rightarrow> string list \<Rightarrow> bool" where
  "is_decode env cmd = (take 4 cmd = [''java'', ''-jar'', path_str (APKTOOL_PATH env), ''d''])"

definition failed :: "string + (int \<times> string \<times> string) \<Rightarrow> bool" where
  "failed r = (case r of Inl msg \<Rightarrow> True | Inr (returncode, out, err) \<Rightarrow> returncode \<noteq> 0)"

definition new_events :: "world \<Rightarrow> world \<Rightarrow> event list" where
  "new_events w w' = drop (length (trace w)) (trace w')"

fun quiet :: "env \<Rightarrow> event \<Rightarrow> bool" where
  "quiet env (HttpGet u) = False"
| "quiet env (Popen cmd cwd r) = (\<not> is_decode env cmd)"
| "quiet env e = True"

definition emits :: "(event \<Rightarrow> bool) \<Rightarrow> 'a io \<Rightarrow> bool" where
  "emits P m = (\<forall>w r w'. m w = (r, w') \<longrightarrow> (\<exists>tr. trace w' = trace w @ tr \<and> list_all P tr))"

text \<open>Events that are neither an HTTP request nor a process.\<close>

fun internal :: "event \<Rightarrow> bool" where
  "internal (HttpGet u) = False"
| "internal (Popen cmd cwd r) = False"
| "internal e = True"




definition popen_out :: "string + (int \<times> string \<times> string) \<Rightarrow> string" where
  "popen_out r = (case r of Inl msg \<Rightarrow> [] | Inr (returncode, out, err) \<Rightarrow> out)"

definition popen_err :: "string + (int \<times> string \<times> string) \<Rightarrow> string" where
  "popen_err r = (case r of Inl msg \<Rightarrow> msg | Inr (returncode, out, err) \<Rightarrow> err)"

text \<open>A failed run of the analysis, or of the decompiler, among some events.\<close>

definition quark_failed :: "event list \<Rightarrow> bool" where
  "quark_failed tr =
     (\<exists>e \<in> set tr. case e of Popen cmd cwd r \<Rightarrow> take 1 cmd = [''quark''] \<and> failed r | _ \<Rightarrow> False)"

definition jadx_failed :: "env \<Rightarrow> event list \<Rightarrow> bool" where
  "jadx_failed env tr =
     (\<exists>e \<in> set tr. case e of
        Popen cmd cwd r \<Rightarrow> take 1 cmd = [path_str (JADX_PATH env)] \<and> failed r
      | _ \<Rightarrow> False)"



text \<open>Exceptions of the operating system, as opposed to those the program raises itself.\<close>

fun os_error :: "exn \<Rightarrow> bool" where
  "os_error (GrError m) = False"
| "os_error (RequestException m) = False"
| "os_error ZeroDivisionError = False"
| "os_error ValueError = False"
| "os_error e = True"

definition raises :: "(exn \<Rightarrow> bool) \<Rightarrow> 'a io \<Rightarrow> bool" where
  "raises Q m = (\<forall>w e w'. m w = (Inl e, w') \<longrightarrow> Q e)"

text \<open>
  The events of steps 1 to 4 and of the start of step 5: the check of the tools, the
  download (when \<open>http\<close> allows one), and the set-up of the project directory.
\<close>

fun prelude :: "env \<Rightarrow> bool \<Rightarrow> event \<Rightarrow> bool" where
  "prelude env http (Popen cmd cwd r) = (cmd = [''java'', ''--version''])"
| "prelude env http (HttpGet u) = http"
| "prelude env http (Progress f d) =
     (d = ''Downloading APK...'' \<or> prefix ''Downloading: '' d \<or> d = ''Decompiling with Apktool...'')"
| "prelude env http (FileWrite p c) = (http \<and> butlast p = TEMP_DIR env \<and> c = Raw [])"
| "prelude env http (FileAppend p s) = (http \<and> butlast p = TEMP_DIR env)"
| "prelude env http (Makedirs p) = (butlast p = TEMP_DIR env)"
| "prelude env http (Rmtree p) = (butlast p = TEMP_DIR env)"
| "prelude env http (Move p q) = False"

abbreviation decode_command :: "env \<Rightarrow> string \<Rightarrow> path \<Rightarrow> string list \<Rightarrow> string list" where
  "decode_command env apk_path project_dir apktool_opts \<equiv>
     [''java'', ''-jar'', path_str (APKTOOL_PATH env), ''d'', apk_path,
      ''-o'', path_str project_dir, ''-f''] @ apktool_opts"

abbreviation decode_header :: "string list \<Rightarrow> string" where
  "decode_header apktool_opts \<equiv>
     ''\<newline>--- Apktool Decompilation ---\<newline>Running with options: '' @ join '' '' apktool_opts"

abbreviation decode_progress :: event where
  "decode_progress \<equiv> Progress (2 / 10) ''Decompiling with Apktool...''"

text \<open>
  An installation under \<^verbatim>\<open>/app\<close> with all tools in place, and an uploaded
  \<^verbatim>\<open>/uploads/sample.apk\<close>.
\<close>

definition demo_installation :: node where
  "demo_installation =
     Dir [(''app'', Dir [
            (''tools'', Dir [
               (''apktool.jar'', File (Raw [])),
               (''uber-apk-signer.jar'', File (Raw [])),
               (''jadx'', Dir [(''bin'', Dir [(''jadx'', File (Raw []))])])]),
            (''temp'', Dir []),
            (''downloads'', Dir [])]),
          (''uploads'', Dir [(''sample.apk'', File (Raw ''apk''))])]"

definition demo_start :: world where
  "demo_start = \<lparr>fs = demo_installation, trace = [], uuid_count = 0\<rparr>"

text \<open>
  An environment in which every process exits with the return code \<open>rc\<close> gives for its
  command line, leaving the file system as it is; the server sends one chunk and no
  \<^verbatim>\<open>content-length\<close> header.
\<close>

definition demo_env :: "(string list \<Rightarrow> int) \<Rightarrow> env" where
  "demo_env rc =
     \<lparr>BASE_DIR = [''app''],
      popen = (\<lambda>cmd cwd w. (Inr (rc cmd, ''out'', ''err''), fs w)),
      requests_get = (\<lambda>url w. Inr \<lparr>http_error = None, content_length = None, chunks = [''PK'']\<rparr>),
      uuid4_hex = (\<lambda>n. ''0123456789abcdef0123456789abcdef''),
      str_exn = (\<lambda>e. if e = ZeroDivisionError then ''division by zero'' else ''error'')\<rparr>"

definition all_succeed :: "string list \<Rightarrow> int" where
  "all_succeed cmd = 0"

definition decode_fails :: "string list \<Rightarrow> int" where
  "decode_fails cmd = (if take 4 cmd = [''java'', ''-jar'', ''/app/tools/apktool.jar'', ''d''] then 1 else 0)"


definition demo_upload :: upload where
  "demo_upload = Upload ''/uploads/sample.apk''"

definition demo_decode_command :: "string list" where
  "demo_decode_command =
     [''java'', ''-jar'', ''/app/tools/apktool.jar'', ''d'', ''/uploads/sample.apk'',
      ''-o'', ''/app/temp/sample-decompiled-01234567'', ''-f'']"


definition demo_failed_run :: "(exn + outcome) \<times> world" where
  "demo_failed_run = process_apk (demo_env decode_fails) (Some demo_upload) None [] demo_start"





text \<open>
  The example installation with an uploaded project archive and keystore, and an
  environment whose signer writes its output next to the APK it is given.
\<close>

definition demo_rebuild_start :: world where
  "demo_rebuild_start =
     \<lparr>fs = Dir [(''app'', Dir [
                 (''tools'', Dir [
                    (''apktool.jar'', File (Raw [])),
                    (''uber-apk-signer.jar'', File (Raw [])),
                    (''jadx'', Dir [(''bin'', Dir [(''jadx'', File (Raw []))])])]),
                 (''temp'', Dir []),
                 (''downloads'', Dir [])]),
               (''uploads'', Dir [
                 (''sample-decompiled.zip'', File (Zip [
                    (''AndroidManifest.xml'', Raw ''<manifest/>''),
                    (''res/values/strings.xml'', Raw ''<resources/>'')])),
                 (''release.jks'', File (Raw ''keys''))])],
      trace = [], uuid_count = 0\<rparr>"

definition demo_signer :: "string list \<Rightarrow> path option \<Rightarrow> world \<Rightarrow> (string + (int \<times> string \<times> string)) \<times> node" where
  "demo_signer cmd cwd w =
     (Inr (0, ''out'', ''err''),
      if take 4 cmd = [''java'', ''-jar'', ''/app/tools/uber-apk-signer.jar'', ''--apks'']
      then (case write_file [''app'', ''temp'', ''rebuild-out-01234567'',
                             ''rebuilt-unsigned-aligned-signed.apk''] (Raw ''signed'') (fs w) of
              Inl e \<Rightarrow> fs w
            | Inr n \<Rightarrow> n)
      else fs w)"

definition demo_rebuild_env :: env where
  "demo_rebuild_env = (demo_env all_succeed)\<lparr>popen := demo_signer\<rparr>"

definition demo_rebuild_run :: "(exn + outcome) \<times> world" where
  "demo_rebuild_run =
     rebuild_and_sign_apk demo_rebuild_env (Some (Upload ''/uploads/sample-decompiled.zip''))
       [''use_aapt2''] (Some (Upload ''/uploads/release.jks''))
       (Some ''secret'') (Some ''key'') (Some ''secret'') demo_rebuild_start"

section \<open>Example states\<close>

definition demo_project :: node where
  "demo_project = Dir [(''proj'', Dir [(''AndroidManifest.xml'',
       File (Raw ''<manifest><application></application></manifest>''))])]"

definition demo_world :: world where
  "demo_world = \<lparr>fs = demo_project, trace = [], uuid_count = 0\<rparr>"

definition demo_empty_world :: world where
  "demo_empty_world = \<lparr>fs = Dir [(''proj'', Dir [])], trace = [], uuid_count = 0\<rparr>"

section \<open>Lemmas about strings and the file system\<close>

lemma join_snoc:
  "join sep (xs @ [y]) = (if xs = [] then y else join sep xs @ sep @ y)"
  by (induction sep xs rule: join.induct) auto

lemma lookup_append:
  "lookup n (p @ q) = (case lookup n p of None \<Rightarrow> None | Some m \<Rightarrow> lookup m q)"
  by (induction n p rule: lookup.induct) (auto split: option.splits)

lemma lookup_File_Cons [simp]: "lookup (File c) p = (if p = [] then Some (File c) else None)"
  by (cases p) auto

lemma lookup_alter_frame:
  "alter p f n = Inr n' \<Longrightarrow> \<not> prefix p q \<Longrightarrow> \<not> prefix q p \<Longrightarrow> lookup n' q = lookup n q"
proof (induction p f n arbitrary: n' q rule: alter.induct)
  case (3 d p f es)
  then obtain d' q' where q: "q = d' # q'" by (cases q) auto
  show ?case
  proof (cases "d' = d")
    case False
    with 3(2) q show ?thesis
      by (auto simp: update_conv' delete_conv' split: if_splits sum.splits option.splits)
  next
    case True
    with 3(3) q have pne: "p \<noteq> []" by auto
    with 3(2) obtain m m' where m: "map_of es d = Some m" "alter p f m = Inr m'" "n' = Dir (AList.update d m' es)"
      by (auto split: option.splits sum.splits)
    from 3(3,4) q True have "\<not> prefix p q'" "\<not> prefix q' p" by auto
    with 3(1)[OF pne m(1) m(2)] have "lookup m' q' = lookup m q'" by blast
    with m q True show ?thesis by (simp add: update_conv')
  qed
qed auto

lemma lookup_alter_same:
  "alter p f n = Inr n' \<Longrightarrow> \<exists>r. f (lookup n p) = Inr r \<and> lookup n' p = r"
proof (induction p f n arbitrary: n' rule: alter.induct)
  case (3 d p f es)
  show ?case
  proof (cases "p = []")
    case True
    with 3(2) show ?thesis
      by (auto simp: update_conv' delete_conv' split: sum.splits option.splits)
  next
    case False
    with 3(2) obtain m m' where m: "map_of es d = Some m" "alter p f m = Inr m'" "n' = Dir (AList.update d m' es)"
      by (auto split: option.splits sum.splits)
    from 3(1)[OF False m(1) m(2)] m False show ?thesis
      by (cases p) (auto simp: update_conv')
  qed
qed auto

lemma lookup_makedirs_frame:
  "makedirs p ok n = Inr n' \<Longrightarrow> \<not> prefix q p \<Longrightarrow> lookup n' q = lookup n q"
proof (induction p ok n arbitrary: n' q rule: makedirs.induct)
  case (4 d p ok es)
  then obtain d' q' where q: "q = d' # q'" by (cases q) auto
  show ?case
  proof (cases "map_of es d")
    case None
    with 4(2) have n': "n' = Dir (AList.update d (fresh_dirs p) es)" by simp
    show ?thesis
    proof (cases "d' = d")
      case False
      with n' q show ?thesis by (simp add: update_conv')
    next
      case True
      with 4(3) q have "\<not> prefix q' p" by simp
      then have "lookup (fresh_dirs p) q' = None"
      proof (induction p arbitrary: q')
        case Nil then show ?case by (cases q') auto
      next
        case (Cons a p) then show ?case by (cases q') auto
      qed
      with n' q True None show ?thesis by (simp add: update_conv')
    qed
  next
    case (Some m)
    with 4(2) obtain m' where m: "makedirs p ok m = Inr m'" "n' = Dir (AList.update d m' es)"
      by (auto split: sum.splits)
    show ?thesis
    proof (cases "d' = d")
      case False
      with m q show ?thesis by (simp add: update_conv')
    next
      case True
      with 4(3) q have "\<not> prefix q' p" by simp
      from 4(1)[OF Some m(1) this] m q True Some show ?thesis by (simp add: update_conv')
    qed
  qed
qed (auto split: if_splits)

lemma lookup_fresh_dirs: "lookup (fresh_dirs p) p = Some (Dir [])"
  by (induction p) auto

lemma is_dir_makedirs:
  "makedirs p ok n = Inr n' \<Longrightarrow> is_dir n' p"
proof (induction p ok n arbitrary: n' rule: makedirs.induct)
  case (4 d p ok es)
  show ?case
  proof (cases "map_of es d")
    case None
    with 4(2) show ?thesis
      by (auto simp: is_dir_def update_conv' lookup_fresh_dirs)
  next
    case (Some m)
    with 4(2) obtain m' where m: "makedirs p ok m = Inr m'" "n' = Dir (AList.update d m' es)"
      by (auto split: sum.splits)
    from 4(1)[OF Some m(1)] m(2) show ?thesis
      by (simp add: is_dir_def update_conv')
  qed
qed (auto simp: is_dir_def split: if_splits)

lemma lookup_write_file_same:
  "write_file p c n = Inr n' \<Longrightarrow> lookup n' p = Some (File c)"
  unfolding write_file_def
  by (drule lookup_alter_same) (auto split: option.splits node.splits)

lemma lookup_write_file_frame:
  "write_file p c n = Inr n' \<Longrightarrow> \<not> prefix p q \<Longrightarrow> \<not> prefix q p \<Longrightarrow> lookup n' q = lookup n q"
  unfolding write_file_def by (rule lookup_alter_frame)

lemma is_dir_prefix:
  "lookup n (q @ r) = Some x \<Longrightarrow> r \<noteq> [] \<Longrightarrow> is_dir n q"
  by (auto simp: lookup_append is_dir_def split: option.splits node.splits)

lemma makedirs_fresh: "makedirs p True (fresh_dirs p) = Inr (fresh_dirs p)"
  by (induction p) auto

lemma makedirs_idem: "makedirs p True n = Inr n' \<Longrightarrow> makedirs p True n' = Inr n'"
proof (induction p "True" n arbitrary: n' rule: makedirs.induct)
  case (4 d p es)
  show ?case
  proof (cases "map_of es d")
    case None
    with 4(2) show ?thesis by (auto simp: update_conv' makedirs_fresh)
  next
    case (Some m)
    with 4(2) obtain m' where m: "makedirs p True m = Inr m'" "n' = Dir (AList.update d m' es)"
      by (auto split: sum.splits)
    from 4(1)[OF Some m(1)] m(2) show ?thesis by (simp add: update_conv')
  qed
qed auto

lemma write_file_on_file:
  "lookup n p = Some (File c0) \<Longrightarrow> p \<noteq> [] \<Longrightarrow> \<exists>n'. write_file p c n = Inr n'"
  unfolding write_file_def
proof (induction n p rule: lookup.induct)
  case (3 es d p)
  then show ?case by (cases p) (auto split: option.splits)
qed auto

lemma contains_Nil [simp]: "contains s []"
  by (induction s) auto

lemma contains_append_left: "contains xs sub \<Longrightarrow> contains (xs @ ys) sub"
proof (induction xs)
  case Nil
  then show ?case by simp
next
  case (Cons a xs)
  then show ?case using prefix_prefix[of sub "a # xs" ys] by auto
qed

lemma contains_append_right: "contains ys sub \<Longrightarrow> contains (xs @ ys) sub"
  by (induction xs) auto

lemma replace_absent: "\<not> contains s old \<Longrightarrow> replace s old new = s"
  by (induction s) auto

lemma replace_present:
  "contains s old \<Longrightarrow> old \<noteq> [] \<Longrightarrow> contains new sub \<Longrightarrow> contains (replace s old new) sub"
proof (induction s old new rule: replace.induct)
  case (2 c cs old new)
  then show ?case
    by (auto simp: contains_append_left simp del: replace.simps(2) simp add: replace.simps(2)[of c cs old new])
qed auto

section \<open>Lemmas about effects\<close>

lemma io_bindE:
  assumes "io_bind m f w = (r, w')"
  obtains (raise) e where "m w = (Inl e, w')" "r = Inl e"
        | (cont) x w1 where "m w = (Inr x, w1)" "f x w1 = (r, w')"
  using assms by (auto simp: io_bind_def split: prod.splits sum.splits)


lemma io_ret_eq [simp]: "io_ret x w = (r, w') \<longleftrightarrow> r = Inr x \<and> w' = w"
  by (auto simp: io_ret_def)

lemma io_raise_eq [simp]: "io_raise e w = (r, w') \<longleftrightarrow> r = Inl e \<and> w' = w"
  by (auto simp: io_raise_def)

lemma fs_op_Inr: "fs_op e f w = (Inr x, w') \<longleftrightarrow> (\<exists>n. f (fs w) = Inr n \<and> w' = emit e (w\<lparr>fs := n\<rparr>))"
  by (auto simp: fs_op_def split: sum.splits)

lemma fs_op_Inl: "fs_op e f w = (Inl x, w') \<longleftrightarrow> f (fs w) = Inl x \<and> w' = w"
  by (auto simp: fs_op_def split: sum.splits)

lemma path_exists_eq [simp]:
  "path_exists p w = (r, w') \<longleftrightarrow> r = Inr (lookup (fs w) p \<noteq> None) \<and> w' = w"
  by (auto simp: path_exists_def)

lemma fs_emit [simp]: "fs (emit e w) = fs w"
  by (simp add: emit_def)

lemma trace_emit [simp]: "trace (emit e w) = trace w @ [e]"
  by (simp add: emit_def)

lemma uuid_count_emit [simp]: "uuid_count (emit e w) = uuid_count w"
  by (simp add: emit_def)

lemma mitm_patch_cases:
  assumes "mitm_patch pd w = (r, w')"
  obtains
    (mkdir_fails) e where
      "makedirs (net_sec_dir pd) True (fs w) = Inl e" "r = Inl e" "w' = w"
  | (config_fails) n1 e where
      "makedirs (net_sec_dir pd) True (fs w) = Inr n1"
      "write_file (net_sec_file pd) (Raw config_content) n1 = Inl e"
      "r = Inl e" "w' = emit (Makedirs (net_sec_dir pd)) (w\<lparr>fs := n1\<rparr>)"
  | (written) n1 n2 w2 where
      "makedirs (net_sec_dir pd) True (fs w) = Inr n1"
      "write_file (net_sec_file pd) (Raw config_content) n1 = Inr n2"
      "w2 = emit (FileWrite (net_sec_file pd) (Raw config_content))
              (emit (Makedirs (net_sec_dir pd)) (w\<lparr>fs := n1\<rparr>)\<lparr>fs := n2\<rparr>)"
      "lookup n2 (manifest_file pd) = None \<and> r = Inr patch_no_manifest \<and> w' = w2
       \<or> (\<exists>e. read_text (manifest_file pd) w2 = (Inl e, w2) \<and> r = Inl e \<and> w' = w2)
       \<or> (\<exists>s. lookup n2 (manifest_file pd) = Some (File (Raw s))
              \<and> contains s ''android:networkSecurityConfig'' \<and> r = Inr patch_ok \<and> w' = w2)
       \<or> (\<exists>s e. lookup n2 (manifest_file pd) = Some (File (Raw s))
              \<and> \<not> contains s ''android:networkSecurityConfig''
              \<and> write_file (manifest_file pd) (Raw (with_attribute s)) n2 = Inl e
              \<and> r = Inl e \<and> w' = w2)
       \<or> (\<exists>s n3. lookup n2 (manifest_file pd) = Some (File (Raw s))
              \<and> \<not> contains s ''android:networkSecurityConfig''
              \<and> write_file (manifest_file pd) (Raw (with_attribute s)) n2 = Inr n3
              \<and> r = Inr patch_ok
              \<and> w' = emit (FileWrite (manifest_file pd) (Raw (with_attribute s))) (w2\<lparr>fs := n3\<rparr>))"
proof -
  note defs = os_makedirs_def open_write_def fs_op_Inr fs_op_Inl
  from assms show thesis
    unfolding mitm_patch_def Let_def
  proof (elim io_bindE, goal_cases)
    case (1 e)
    then show ?case using mkdir_fails by (simp add: defs)
  next
    case (2 x w1 e)
    then show ?case using config_fails by (auto simp: defs)
  next
    case (3 x w1 xa w1a e)
    then show ?case by simp
  next
    case (4 x w1 xa w1a ex w3)
    then obtain n1 n2 where n: "makedirs (net_sec_dir pd) True (fs w) = Inr n1"
      "write_file (net_sec_file pd) (Raw config_content) n1 = Inr n2"
      "w3 = emit (FileWrite (net_sec_file pd) (Raw config_content))
              (emit (Makedirs (net_sec_dir pd)) (w\<lparr>fs := n1\<rparr>)\<lparr>fs := n2\<rparr>)"
      "ex = (lookup n2 (manifest_file pd) \<noteq> None)"
      by (auto simp: defs)
    show ?case
    proof (cases ex)
      case False
      with 4(4) n show ?thesis using written[OF n(1,2,3)] by simp
    next
      case True
      with 4(4) show ?thesis using written[OF n(1,2,3)] n(3)
        apply simp
        apply (elim io_bindE)
          apply (auto simp: defs read_text_def split: if_splits option.splits node.splits content.splits)
        done
    qed
  qed
qed

section \<open>The patch stage\<close>

lemma manifest_frame:
  assumes "makedirs (net_sec_dir pd) True n = Inr n1"
      and "write_file (net_sec_file pd) c n1 = Inr n2"
  shows "lookup n2 (manifest_file pd) = lookup n (manifest_file pd)"
proof -
  have "lookup n1 (manifest_file pd) = lookup n (manifest_file pd)"
    using lookup_makedirs_frame[OF assms(1), of "manifest_file pd"] by simp
  moreover have "lookup n2 (manifest_file pd) = lookup n1 (manifest_file pd)"
    using lookup_write_file_frame[OF assms(2), of "manifest_file pd"] by simp
  ultimately show ?thesis by simp
qed

text \<open>
  Claim C9. When \<^verbatim>\<open>AndroidManifest.xml\<close> is absent from the project directory and
  \<open>mitm_patch\<close> returns, it returns the failure result, and by then it has created the
  directory \<^verbatim>\<open>res/xml\<close> and written \<^verbatim>\<open>network_security_config.xml\<close> with the fixed
  content: these two changes are exactly what the call did.
\<close>

theorem mitm_patch_manifest_absent:
  assumes absent: "lookup (fs w) (project_dir @ [''AndroidManifest.xml'']) = None"
      and run: "mitm_patch project_dir w = (Inr r, w')"
  shows "r = (False, ''AndroidManifest.xml not found.'', '''')
       \<and> is_dir (fs w') (project_dir @ [''res'', ''xml''])
       \<and> file_at (fs w') (project_dir @ [''res'', ''xml'', ''network_security_config.xml''])
           = Some (Raw config_content)
       \<and> trace w' = trace w @
           [Makedirs (project_dir @ [''res'', ''xml'']),
            FileWrite (project_dir @ [''res'', ''xml'', ''network_security_config.xml''])
              (Raw config_content)]"
  using run
proof (cases rule: mitm_patch_cases)
  case (written n1 n2 w2)
  have M2: "lookup n2 (manifest_file project_dir) = None"
    using manifest_frame[OF written(1,2)] absent by simp
  have d2: "is_dir n2 (net_sec_dir project_dir)"
    using is_dir_prefix[of n2 "net_sec_dir project_dir" "[''network_security_config.xml'']"]
      lookup_write_file_same[OF written(2)]
    by simp
  have c2: "file_at n2 (net_sec_file project_dir) = Some (Raw config_content)"
    using lookup_write_file_same[OF written(2)] by (simp add: file_at_def)
  from written(4) M2 have "w' = w2" "r = patch_no_manifest"
    by (auto simp: read_text_def)
  with written(3) d2 c2 show ?thesis by simp
qed simp_all

lemma demo_patch_no_manifest: "fst (mitm_patch [''proj''] demo_empty_world) = Inr (False, ''AndroidManifest.xml not found.'', '''')"
  by code_simp


theorem mitm_patch_manifest_absent_witness:
  "lookup (fs demo_empty_world) ([''proj''] @ [''AndroidManifest.xml'']) = None
   \<and> fst (mitm_patch [''proj''] demo_empty_world) = Inr (False, ''AndroidManifest.xml not found.'', '''')
   \<and> is_dir (fs (snd (mitm_patch [''proj''] demo_empty_world))) ([''proj''] @ [''res'', ''xml''])
   \<and> file_at (fs (snd (mitm_patch [''proj''] demo_empty_world)))
        ([''proj''] @ [''res'', ''xml'', ''network_security_config.xml'']) = Some (Raw config_content)"
proof -
  have absent: "lookup (fs demo_empty_world) ([''proj''] @ [''AndroidManifest.xml'']) = None"
    by (simp add: demo_empty_world_def)
  have run: "mitm_patch [''proj''] demo_empty_world =
      (Inr (False, ''AndroidManifest.xml not found.'', ''''), snd (mitm_patch [''proj''] demo_empty_world))"
    using demo_patch_no_manifest by (metis prod.collapse)
  from mitm_patch_manifest_absent[OF absent run] absent demo_patch_no_manifest show ?thesis by simp
qed

lemma attribute_in_patched:
  \<open>contains ''<application android:networkSecurityConfig="@xml/network_security_config"''
     ''android:networkSecurityConfig''\<close>
  by simp

lemma with_attribute_stable:
  assumes "c1 = (if contains c ''android:networkSecurityConfig'' then c else with_attribute c)"
      and "\<not> contains c1 ''android:networkSecurityConfig''"
  shows "with_attribute c1 = c1"
proof -
  from assms have c1: "c1 = with_attribute c" and no: "\<not> contains (with_attribute c) ''android:networkSecurityConfig''"
    by (auto split: if_splits)
  have "\<not> contains c ''<application''"
  proof
    assume "contains c ''<application''"
    from replace_present[OF this _ attribute_in_patched] no show False by simp
  qed
  then have "with_attribute c = c" by (rule replace_absent)
  with c1 show ?thesis by simp
qed

text \<open>What one run does to an existing manifest.\<close>

lemma mitm_patch_manifest_effect:
  assumes isfile: "lookup (fs w) (manifest_file pd) = Some (File (Raw c))"
      and run: "mitm_patch pd w = (r, w')"
  shows "(\<exists>e. r = Inl e) \<and> lookup (fs w') (manifest_file pd) = Some (File (Raw c))
       \<or> r = Inr patch_ok \<and> lookup (fs w') (manifest_file pd) =
           Some (File (Raw (if contains c ''android:networkSecurityConfig'' then c else with_attribute c)))"
  using run
proof (cases rule: mitm_patch_cases)
  case (mkdir_fails e)
  with isfile show ?thesis by simp
next
  case (config_fails n1 e)
  with isfile lookup_makedirs_frame[OF config_fails(1), of "manifest_file pd"] show ?thesis by simp
next
  case (written n1 n2 w2)
  have M2: "lookup n2 (manifest_file pd) = Some (File (Raw c))"
    using manifest_frame[OF written(1,2)] isfile by simp
  have fs2: "fs w2 = n2" using written(3) by simp
  from written(4) show ?thesis
  proof (elim disjE exE conjE, goal_cases)
    case 1
    with M2 show ?case by simp
  next
    case (2 e)
    with M2 fs2 show ?case by (simp add: read_text_def)
  next
    case (3 s)
    with M2 fs2 show ?case by simp
  next
    case (4 s e)
    with M2 write_file_on_file[of n2 "manifest_file pd" "Raw c" "Raw (with_attribute s)"]
    show ?case by simp
  next
    case (5 s n3)
    with M2 lookup_write_file_same[OF 5(3)] show ?case by simp
  qed
qed

text \<open>A run that raised raises again, and leaves the file system as it was.\<close>

lemma mitm_patch_failure_stable:
  assumes isfile: "lookup (fs w) (manifest_file pd) = Some (File (Raw c))"
      and run1: "mitm_patch pd w = (Inl e, w1)"
      and run2: "mitm_patch pd w1 = (r2, w2)"
  shows "fs w2 = fs w1"
  using run1
proof (cases rule: mitm_patch_cases)
  case (mkdir_fails e')
  with run1 run2 show ?thesis by simp
next
  case (config_fails n1 e')
  then have fs1: "fs w1 = n1" by simp
  have again: "makedirs (net_sec_dir pd) True n1 = Inr n1"
    using makedirs_idem[OF config_fails(1)] .
  from run2 show ?thesis
  proof (cases rule: mitm_patch_cases)
    case (mkdir_fails e'')
    then show ?thesis by simp
  next
    case (config_fails n1' e'')
    with fs1 again show ?thesis by simp
  next
    case (written n1' n2' w2')
    with fs1 again config_fails(2) show ?thesis by simp
  qed
next
  case (written n1 n2 w2')
  have M2: "lookup n2 (manifest_file pd) = Some (File (Raw c))"
    using manifest_frame[OF written(1,2)] isfile by simp
  have fs2: "fs w2' = n2" using written(3) by simp
  from written(4) M2 fs2
    write_file_on_file[of n2 "manifest_file pd" "Raw c" "Raw (with_attribute c)"]
  have False
    by (auto simp: read_text_def)
  then show ?thesis ..
qed

text \<open>
  Claim C3. When the project directory holds a manifest file, the manifest after two
  runs of \<open>mitm_patch\<close> is the manifest after one run: the second run adds no further
  \<^verbatim>\<open>android:networkSecurityConfig\<close> attribute.
\<close>

theorem mitm_patch_idempotent:
  assumes isfile: "lookup (fs w) (project_dir @ [''AndroidManifest.xml'']) = Some (File (Raw c))"
      and run1: "mitm_patch project_dir w = (r1, w1)"
      and run2: "mitm_patch project_dir w1 = (r2, w2)"
  shows "\<exists>c1. lookup (fs w1) (project_dir @ [''AndroidManifest.xml'']) = Some (File (Raw c1))
            \<and> lookup (fs w2) (project_dir @ [''AndroidManifest.xml'']) = Some (File (Raw c1))"
proof (cases r1)
  case (Inl e)
  with mitm_patch_manifest_effect[OF isfile run1]
  have "lookup (fs w1) (manifest_file project_dir) = Some (File (Raw c))" by auto
  moreover have "fs w2 = fs w1"
    using mitm_patch_failure_stable[OF isfile _ run2] run1 Inl by simp
  ultimately show ?thesis by simp
next
  case (Inr x)
  let ?c1 = "if contains c ''android:networkSecurityConfig'' then c else with_attribute c"
  from mitm_patch_manifest_effect[OF isfile run1] Inr
  have l1: "lookup (fs w1) (manifest_file project_dir) = Some (File (Raw ?c1))" by auto
  have stable: "(if contains ?c1 ''android:networkSecurityConfig'' then ?c1 else with_attribute ?c1) = ?c1"
    using with_attribute_stable[of ?c1 c] by auto
  from mitm_patch_manifest_effect[OF l1 run2] stable
  have "lookup (fs w2) (manifest_file project_dir) = Some (File (Raw ?c1))" by auto
  with l1 show ?thesis by blast
qed

lemma demo_patch_twice:
  \<open>file_at (fs (snd (mitm_patch [''proj''] (snd (mitm_patch [''proj''] demo_world)))))
     [''proj'', ''AndroidManifest.xml'']
   = Some (Raw ''<manifest><application android:networkSecurityConfig="@xml/network_security_config"></application></manifest>'')\<close>
  by code_simp

theorem mitm_patch_idempotent_witness:
  "lookup (fs demo_world) ([''proj''] @ [''AndroidManifest.xml''])
     = Some (File (Raw ''<manifest><application></application></manifest>''))
   \<and> (\<exists>c1. lookup (fs (snd (mitm_patch [''proj''] demo_world)))
               ([''proj''] @ [''AndroidManifest.xml'']) = Some (File (Raw c1))
          \<and> lookup (fs (snd (mitm_patch [''proj''] (snd (mitm_patch [''proj''] demo_world)))))
               ([''proj''] @ [''AndroidManifest.xml'']) = Some (File (Raw c1)))"
proof -
  have isfile: "lookup (fs demo_world) ([''proj''] @ [''AndroidManifest.xml''])
      = Some (File (Raw ''<manifest><application></application></manifest>''))"
    by (simp add: demo_world_def demo_project_def)
  have run1: "mitm_patch [''proj''] demo_world =
      (fst (mitm_patch [''proj''] demo_world), snd (mitm_patch [''proj''] demo_world))"
    by simp
  have run2: "mitm_patch [''proj''] (snd (mitm_patch [''proj''] demo_world)) =
      (fst (mitm_patch [''proj''] (snd (mitm_patch [''proj''] demo_world))),
       snd (mitm_patch [''proj''] (snd (mitm_patch [''proj''] demo_world))))"
    by simp
  from mitm_patch_idempotent[OF isfile run1 run2] isfile show ?thesis by simp
qed

section \<open>The decode pipeline\<close>

lemma emitsD:
  "emits P m \<Longrightarrow> m w = (r, w') \<Longrightarrow> \<exists>tr. trace w' = trace w @ tr \<and> list_all P tr"
  by (auto simp: emits_def)

lemma emits_ret [intro!]: "emits P (io_ret x)"
  by (simp add: emits_def)

lemma emits_raise [intro!]: "emits P (io_raise e)"
  by (simp add: emits_def)

lemma emits_bind [intro!]:
  assumes "emits P m" and "\<And>x. emits P (f x)"
  shows "emits P (io_bind m f)"
  unfolding emits_def
proof (intro allI impI)
  fix w r w'
  assume "io_bind m f w = (r, w')"
  then show "\<exists>tr. trace w' = trace w @ tr \<and> list_all P tr"
  proof (cases rule: io_bindE)
    case (raise e)
    with emitsD[OF assms(1)] show ?thesis by simp
  next
    case (cont x w1)
    from emitsD[OF assms(1) cont(1)] obtain t1 where "trace w1 = trace w @ t1" "list_all P t1"
      by blast
    moreover from emitsD[OF assms(2) cont(2)] obtain t2 where "trace w' = trace w1 @ t2" "list_all P t2"
      by blast
    ultimately show ?thesis by simp
  qed
qed

lemma emits_try [intro!]: "emits P m \<Longrightarrow> emits P (io_try m)"
  by (auto simp: emits_def io_try_def split: prod.splits)

lemma emits_catch [intro!]:
  assumes "emits P m" and "\<And>e. emits P (h e)"
  shows "emits P (io_catch m h)"
  unfolding emits_def
proof (intro allI impI)
  fix w r w'
  assume run: "io_catch m h w = (r, w')"
  obtain r1 w1 where m: "m w = (r1, w1)" by (cases "m w")
  from emitsD[OF assms(1) m] obtain t1 where t1: "trace w1 = trace w @ t1" "list_all P t1"
    by blast
  show "\<exists>tr. trace w' = trace w @ tr \<and> list_all P tr"
  proof (cases r1)
    case (Inl e)
    with run m have "h e w1 = (r, w')" by (simp add: io_catch_def)
    from emitsD[OF assms(2) this] t1 show ?thesis by auto
  next
    case (Inr x)
    with run m t1 show ?thesis by (auto simp: io_catch_def)
  qed
qed

lemma emits_if [intro!]: "(c \<Longrightarrow> emits P a) \<Longrightarrow> (\<not> c \<Longrightarrow> emits P b) \<Longrightarrow> emits P (if c then a else b)"
  by simp

lemma emits_case_prod [intro!]: "(\<And>a b. emits P (f a b)) \<Longrightarrow> emits P (case x of (a, b) \<Rightarrow> f a b)"
  by (cases x) simp

lemma emits_case_option [intro!]:
  "emits P a \<Longrightarrow> (\<And>x. emits P (f x)) \<Longrightarrow> emits P (case x of None \<Rightarrow> a | Some y \<Rightarrow> f y)"
  by (cases x) simp_all

lemma emits_case_sum [intro!]:
  "(\<And>x. emits P (f x)) \<Longrightarrow> (\<And>x. emits P (g x)) \<Longrightarrow> emits P (case x of Inl y \<Rightarrow> f y | Inr y \<Rightarrow> g y)"
  by (cases x) simp_all

lemma emits_fs_op: "P e \<Longrightarrow> emits P (fs_op e f)"
  by (auto simp: emits_def fs_op_def split: sum.splits)

lemma emits_progress: "P (Progress a d) \<Longrightarrow> emits P (progress a d)"
  by (auto simp: emits_def progress_def)

lemma emits_path_exists [intro!]: "emits P (path_exists p)"
  by (auto simp: emits_def)

lemma emits_read_text [intro!]: "emits P (read_text p)"
  by (auto simp: emits_def read_text_def split: option.splits node.splits content.splits)

lemma emits_read_content [intro!]: "emits P (read_content p)"
  by (auto simp: emits_def read_content_def split: option.splits node.splits)

lemma emits_walk [intro!]: "emits P (walk p)"
  by (auto simp: emits_def walk_def)

lemma emits_uuid [intro!]: "emits P (uuid4_hex8 env)"
  by (auto simp: emits_def uuid4_hex8_def)

lemma emits_run_command: "(\<And>r. P (Popen cmd cwd r)) \<Longrightarrow> emits P (run_command env cmd cwd)"
  by (auto simp: emits_def run_command_def Let_def emit_def split: prod.splits sum.splits if_splits)

lemma internal_emits_fs:
  assumes "\<And>e. internal e \<Longrightarrow> P e"
  shows "emits P (os_makedirs p ok)" "emits P (open_write p c)" "emits P (shutil_rmtree p)"
        "emits P (shutil_move p q)" "emits P (file_append p s)" "emits P (progress a d)"
  unfolding os_makedirs_def open_write_def shutil_rmtree_def shutil_move_def file_append_def
  by (auto intro!: emits_fs_op emits_progress assms)

lemma emits_mitm_patch:
  assumes "\<And>e. internal e \<Longrightarrow> P e"
  shows "emits P (mitm_patch pd)"
  unfolding mitm_patch_def Let_def
  by (intro emits_bind emits_if emits_ret emits_path_exists emits_read_text internal_emits_fs assms)

lemma emits_zip_files:
  "emits P (zip_files source_dir dp files zipf)"
  by (induction files arbitrary: zipf) (auto simp: Let_def)

lemma emits_zip_walk:
  "emits P (zip_walk source_dir walked zipf)"
  by (induction walked arbitrary: zipf) (auto intro!: emits_zip_files)

lemma emits_create_zip:
  assumes "\<And>e. internal e \<Longrightarrow> P e"
  shows "emits P (create_zip source_dir zip_path)"
  unfolding create_zip_def
  by (intro emits_bind emits_ret emits_walk emits_zip_walk internal_emits_fs assms)

lemma new_events_append:
  "trace w' = trace w @ tr \<Longrightarrow> new_events w w' = tr"
  by (simp add: new_events_def)

lemma new_events_self [simp]: "new_events w w = []"
  by (simp add: new_events_def)

lemma emitsE:
  assumes "emits P m" "m w = (r, w')"
  obtains tr where "trace w' = trace w @ tr" "list_all P tr" "new_events w w' = tr"
  using emitsD[OF assms] new_events_append by blast

lemma internal_quiet: "internal e \<Longrightarrow> quiet env e"
  by (cases e) auto







lemma step9_emits: "emits internal (process_apk_step9 env project_name project_dir logs)"
  unfolding process_apk_step9_def Let_def
  by (intro emits_bind emits_ret emits_create_zip internal_emits_fs)

lemma run_commandE:
  assumes "run_command env cmd cwd w = (r, w')"
  obtains res n where "popen env cmd cwd w = (res, n)"
    "w' = emit (Popen cmd cwd res) (w\<lparr>fs := n\<rparr>)"
    "r = Inr (\<not> failed res, popen_out res, popen_err res)"
  using assms
  by (auto simp: run_command_def Let_def failed_def popen_out_def popen_err_def
           split: prod.splits sum.splits if_splits)

lemma progress_eq [simp]:
  "progress a d w = (r, w') \<longleftrightarrow> r = Inr () \<and> w' = emit (Progress a d) w"
  by (auto simp: progress_def)

lemma path_str_slash: "\<exists>s. path_str p = CHR ''/'' # s"
  by (cases p) (auto simp: path_str_def)

lemma path_str_not_quark [simp]: "path_str p \<noteq> ''quark''"
  using path_str_slash[of p] by auto

lemma path_str_not_java [simp]: "path_str p \<noteq> ''java''"
  using path_str_slash[of p] by auto

lemma quark_not_path_str [simp]: "''quark'' \<noteq> path_str p"
  using path_str_slash[of p] by auto

lemma java_not_path_str [simp]: "''java'' \<noteq> path_str p"
  using path_str_slash[of p] by auto



lemma quark_failed_append [simp]:
  "quark_failed (a @ b) \<longleftrightarrow> quark_failed a \<or> quark_failed b"
  by (auto simp: quark_failed_def)

lemma jadx_failed_append [simp]:
  "jadx_failed env (a @ b) \<longleftrightarrow> jadx_failed env a \<or> jadx_failed env b"
  by (auto simp: jadx_failed_def)






lemma raisesD: "raises Q m \<Longrightarrow> m w = (Inl e, w') \<Longrightarrow> Q e"
  by (auto simp: raises_def)

lemma raises_ret [intro!]: "raises Q (io_ret x)"
  by (simp add: raises_def)

lemma raises_raise: "Q e \<Longrightarrow> raises Q (io_raise e)"
  by (simp add: raises_def)

lemma raises_bind [intro!]:
  assumes "raises Q m" and "\<And>x. raises Q (f x)"
  shows "raises Q (io_bind m f)"
  unfolding raises_def
proof (intro allI impI)
  fix w e w'
  assume "io_bind m f w = (Inl e, w')"
  then show "Q e"
    by (cases rule: io_bindE) (auto dest: raisesD[OF assms(1)] raisesD[OF assms(2)])
qed

lemma raises_if [intro!]: "(c \<Longrightarrow> raises Q a) \<Longrightarrow> (\<not> c \<Longrightarrow> raises Q b) \<Longrightarrow> raises Q (if c then a else b)"
  by simp

lemma raises_case_prod [intro!]: "(\<And>a b. raises Q (f a b)) \<Longrightarrow> raises Q (case x of (a, b) \<Rightarrow> f a b)"
  by (cases x) simp

lemma raises_fs_op: "(\<And>n e. f n = Inl e \<Longrightarrow> Q e) \<Longrightarrow> raises Q (fs_op ev f)"
  by (auto simp: raises_def fs_op_def split: sum.splits)

lemma raises_progress [intro!]: "raises Q (progress a d)"
  by (simp add: raises_def)

lemma raises_path_exists [intro!]: "raises Q (path_exists p)"
  by (simp add: raises_def)

lemma raises_uuid [intro!]: "raises Q (uuid4_hex8 env)"
  by (auto simp: raises_def uuid4_hex8_def)

lemma raises_walk [intro!]: "raises Q (walk p)"
  by (auto simp: raises_def walk_def)

lemma raises_run_command [intro!]: "raises Q (run_command env cmd cwd)"
  by (auto simp: raises_def elim: run_commandE)

lemma makedirs_os_error: "makedirs p ok n = Inl e \<Longrightarrow> os_error e"
  by (induction p ok n arbitrary: e rule: makedirs.induct)
     (auto split: if_splits option.splits sum.splits)

lemma alter_os_error:
  "alter p f n = Inl e \<Longrightarrow> (\<And>x e. f x = Inl e \<Longrightarrow> os_error e) \<Longrightarrow> os_error e"
  by (induction p f n arbitrary: e rule: alter.induct)
     (auto split: if_splits option.splits sum.splits)

lemma raises_fs_ops [intro!]:
  "raises os_error (os_makedirs p ok)" "raises os_error (open_write p c)"
  "raises os_error (shutil_rmtree p)"
  unfolding os_makedirs_def open_write_def shutil_rmtree_def write_file_def rmtree_def
  by (auto intro!: raises_fs_op dest: makedirs_os_error elim!: alter_os_error
           split: option.splits node.splits)

lemma raises_read_text [intro!]: "raises os_error (read_text p)"
  by (auto simp: raises_def read_text_def split: option.splits node.splits content.splits)

lemma raises_read_content [intro!]: "raises os_error (read_content p)"
  by (auto simp: raises_def read_content_def split: option.splits node.splits)

lemma raises_mitm_patch [intro!]: "raises os_error (mitm_patch pd)"
  unfolding mitm_patch_def Let_def by (intro raises_bind raises_if raises_ret raises_path_exists
      raises_read_text raises_fs_ops)

lemma raises_zip_files: "raises os_error (zip_files source_dir dp files zipf)"
  by (induction files arbitrary: zipf) (auto simp: Let_def)

lemma raises_zip_walk: "raises os_error (zip_walk source_dir walked zipf)"
  by (induction walked arbitrary: zipf) (auto intro!: raises_zip_files)

lemma raises_create_zip [intro!]: "raises os_error (create_zip source_dir zip_path)"
  unfolding create_zip_def
  by (intro raises_bind raises_ret raises_walk raises_zip_walk raises_fs_ops)

lemma raises_step9: "raises os_error (process_apk_step9 env pn pd logs)"
  unfolding process_apk_step9_def Let_def by (intro raises_bind raises_ret raises_progress
      raises_create_zip raises_fs_ops)

lemma raises_step8: "raises os_error (process_apk_step8 env ap pn pd opts jo logs)"
  unfolding process_apk_step8_def Let_def jadx_decompile_def
  by (intro raises_bind raises_if raises_case_prod raises_progress raises_run_command raises_step9)

lemma raises_step7: "raises os_error (process_apk_step7 env ap pn pd opts jo logs)"
  unfolding process_apk_step7_def Let_def quark_analyze_def
  by (intro raises_bind raises_if raises_case_prod raises_progress raises_run_command raises_step8)

lemma raises_step6: "raises os_error (process_apk_step6 env ap pn pd opts jo logs)"
  unfolding process_apk_step6_def Let_def
  by (intro raises_bind raises_if raises_case_prod raises_progress raises_mitm_patch raises_step7)

lemma raises_step5: "raises os_error (process_apk_step5 env ap pn pd opts ao jo logs)"
  unfolding process_apk_step5_def Let_def apktool_decode_def
  by (intro raises_bind raises_if raises_case_prod raises_progress raises_run_command raises_ret
      raises_step6)

lemma raises_step3: "raises os_error (process_apk_step3 env ap opts logs)"
  unfolding process_apk_step3_def Let_def
  by (intro raises_bind raises_if raises_uuid raises_path_exists raises_fs_ops raises_ret
      raises_step5)

text \<open>The events of the optional stages and of the packaging.\<close>

lemma emits_mono: "emits P m \<Longrightarrow> (\<And>e. P e \<Longrightarrow> Q e) \<Longrightarrow> emits Q m"
  unfolding emits_def list_all_iff by blast

lemma emits_step8: "emits (quiet env) (process_apk_step8 env ap pn pd opts jo logs)"
  unfolding process_apk_step8_def Let_def jadx_decompile_def
  by (intro emits_bind emits_if emits_case_prod emits_progress emits_run_command
        emits_mono[OF step9_emits internal_quiet])
     (simp_all add: is_decode_def)

lemma emits_step7: "emits (quiet env) (process_apk_step7 env ap pn pd opts jo logs)"
  unfolding process_apk_step7_def Let_def quark_analyze_def
  by (intro emits_bind emits_if emits_case_prod emits_progress emits_run_command emits_step8)
     (simp_all add: is_decode_def)

lemma emits_step6: "emits (quiet env) (process_apk_step6 env ap pn pd opts jo logs)"
  unfolding process_apk_step6_def Let_def
  by (intro emits_bind emits_if emits_case_prod emits_progress emits_step7
        emits_mitm_patch internal_quiet)
     simp_all

lemma io_bind_cases:
  assumes "emits P m" and "io_bind m f w = (r, w')"
  obtains (raise) e tr where "r = Inl e" "m w = (Inl e, w')" "trace w' = trace w @ tr" "list_all P tr"
        | (cont) x w1 tr where "m w = (Inr x, w1)" "trace w1 = trace w @ tr" "list_all P tr"
            "f x w1 = (r, w')"
  using assms(2)
proof (cases rule: io_bindE)
  case (raise e)
  with emitsD[OF assms(1) raise(1)] that(1) show ?thesis by blast
next
  case (cont x w1)
  with emitsD[OF assms(1) cont(1)] that(2) show ?thesis by blast
qed

lemma emits_check_tools: "emits (prelude env h) (check_tools env)"
  unfolding check_tools_def Let_def
  by (intro emits_bind emits_if emits_case_prod emits_ret emits_path_exists emits_run_command)
     simp

lemma raises_check_tools: "raises Q (check_tools env)"
  unfolding check_tools_def Let_def
  by (intro raises_bind raises_if raises_case_prod raises_ret raises_path_exists
        raises_run_command)

lemma emits_download_loop:
  "butlast p = TEMP_DIR env \<Longrightarrow> emits (prelude env True) (download_loop p ts cs n)"
proof (induction cs arbitrary: n)
  case Nil
  then show ?case by auto
next
  case (Cons c cs)
  show ?case
    unfolding download_loop.simps Let_def file_append_def truediv_def
    by (intro emits_bind Cons.IH[OF Cons.prems] emits_progress emits_fs_op
          emits_if emits_ret emits_raise)
       (simp_all add: Cons.prems)
qed

lemma emits_http_get:
  "P (HttpGet url) \<Longrightarrow>
   emits P (\<lambda>w. (case requests_get env url w of
                     Inl msg \<Rightarrow> Inl (RequestException msg)
                   | Inr response \<Rightarrow> Inr response, emit (HttpGet url) w))"
  by (auto simp: emits_def)

lemma emits_download_apk: "emits (prelude env True) (download_apk env url)"
  unfolding download_apk_def Let_def open_write_def
  by (intro emits_catch emits_bind emits_http_get emits_download_loop emits_fs_op emits_ret
        emits_case_option emits_raise)
     (auto split: exn.splits)

text \<open>Step 5: the decode is run; either it failed and the run ends, or step 6 goes on.\<close>

lemma step5_cases:
  assumes run: "process_apk_step5 env ap pn pd opts ao jo logs w = (r, w')"
  obtains res n w2 where
    "w2 = emit (Popen (decode_command env ap pd ao) None res)
            (emit (Progress (2 / 10) ''Decompiling with Apktool...'') w\<lparr>fs := n\<rparr>)"
    "failed res \<Longrightarrow>
       w' = w2 \<and> r = Inr (''Apktool failed.'', DownloadButton None False,
         join ''\<newline>'' ((logs @ [decode_header ao]) @
           [''Apktool STDOUT:\<newline>'' @ popen_out res, ''Apktool STDERR:\<newline>'' @ popen_err res]))"
    "\<not> failed res \<Longrightarrow>
       process_apk_step6 env ap pn pd opts jo
         (((logs @ [decode_header ao]) @ [''Apktool STDOUT:\<newline>'' @ popen_out res]) @
            [''Apktool STDERR:\<newline>'' @ popen_err res]) w2 = (r, w')"
  using run unfolding process_apk_step5_def apktool_decode_def Let_def
proof (cases rule: io_bindE)
  case (raise e)
  then show ?thesis by simp
next
  case (cont x w1)
  from cont(2) show ?thesis
  proof (cases rule: io_bindE)
    case (raise e)
    then show ?thesis by (auto elim: run_commandE)
  next
    case c2: (cont y w2)
    from c2(1) cont(1) obtain res n where
      y: "y = (\<not> failed res, popen_out res, popen_err res)" and
      w2: "w2 = emit (Popen (decode_command env ap pd ao) None res)
                 (emit (Progress (2 / 10) ''Decompiling with Apktool...'') w\<lparr>fs := n\<rparr>)"
      by (auto elim!: run_commandE)
    show ?thesis
    proof (rule that[OF w2])
      assume "failed res"
      with c2(2) y show "w' = w2 \<and> r = Inr (''Apktool failed.'', DownloadButton None False,
         join ''\<newline>'' ((logs @ [decode_header ao]) @
           [''Apktool STDOUT:\<newline>'' @ popen_out res, ''Apktool STDERR:\<newline>'' @ popen_err res]))"
        by auto
    next
      assume "\<not> failed res"
      with c2(2) y show "process_apk_step6 env ap pn pd opts jo
         (((logs @ [decode_header ao]) @ [''Apktool STDOUT:\<newline>'' @ popen_out res]) @
            [''Apktool STDERR:\<newline>'' @ popen_err res]) w2 = (r, w')"
        by simp
    qed
  qed
qed

text \<open>Steps 3 and 4: either an operation on the file system raises, or step 5 goes on.\<close>

lemma step3_cases:
  assumes run: "process_apk_step3 env ap opts logs w = (r, w')"
  obtains (stopped) e tr where "r = Inl e" "os_error e"
            "trace w' = trace w @ tr" "list_all (prelude env h) tr"
        | (decoding) w0 tr d ao jo logs1 where
            "trace w0 = trace w @ tr" "list_all (prelude env h) tr"
            "process_apk_step5 env ap (path_stem ap) (TEMP_DIR env @ [d]) opts ao jo logs1 w0 = (r, w')"
proof -
  have P: "\<And>p ok. butlast p = TEMP_DIR env \<Longrightarrow> emits (prelude env h) (os_makedirs p ok)"
          "\<And>p. butlast p = TEMP_DIR env \<Longrightarrow> emits (prelude env h) (shutil_rmtree p)"
    unfolding os_makedirs_def shutil_rmtree_def by (auto intro!: emits_fs_op)
  from run[unfolded process_apk_step3_def Let_def] show thesis
  proof (cases rule: io_bind_cases[OF emits_uuid[of "prelude env h"], consumes 1, case_names raise cont])
    case (raise e tr)
    then show ?thesis by (auto simp: uuid4_hex8_def)
  next
    case c1: (cont suffix w1 t1)
    let ?pd = "TEMP_DIR env @ [path_stem ap @ ''-decompiled-'' @ suffix]"
    from c1(4) show ?thesis
    proof (cases rule: io_bind_cases[OF emits_path_exists[of "prelude env h"], consumes 1, case_names raise cont])
      case (raise e tr)
      then show ?thesis by simp
    next
      case c2: (cont ex w2 t2)
      have e3: "emits (prelude env h) (if ex then shutil_rmtree ?pd else io_ret ())"
        by (auto intro!: P)
      from c2(4) show ?thesis
      proof (cases rule: io_bind_cases[OF e3, consumes 1, case_names raise cont])
        case (raise e tr)
        have "os_error e"
          using raise(2) raisesD[OF raises_fs_ops(3)] by (auto split: if_splits)
        with raise c1 c2 stopped[of e "t1 @ t2 @ tr"] show ?thesis by simp
      next
        case c3: (cont u w3 t3)
        have e4: "emits (prelude env h) (os_makedirs ?pd False)"
          by (auto intro!: P)
        from c3(4) show ?thesis
        proof (cases rule: io_bind_cases[OF e4, consumes 1, case_names raise cont])
          case (raise e tr)
          have "os_error e"
            using raise(2) raisesD[OF raises_fs_ops(1)] by auto
          with raise c1 c2 c3 stopped[of e "t1 @ t2 @ t3 @ tr"] show ?thesis by simp
        next
          case c4: (cont u' w4 t4)
          from c4(4) c1 c2 c3 c4 decoding[of w4 "t1 @ t2 @ t3 @ t4"] show ?thesis by simp
        qed
      qed
    qed
  qed
qed

text \<open>
  Steps 1 and 2: the run stops before any project directory is used, or it gets to the
  decode of step 5.
\<close>

lemma os_error_not_gr: "os_error e \<Longrightarrow> e \<noteq> GrError m"
  by (cases e) auto

lemma process_apk_cases:
  assumes run: "process_apk env apk_file apk_url opts w = (r, w')"
  obtains
    (stopped) tr where
      "trace w' = trace w @ tr" "list_all (prelude env (apk_file = None)) tr"
      "\<And>m. r = Inl (GrError m) \<Longrightarrow> apk_file = None \<and> \<not> truthy apk_url"
  | (decoding) w0 tr ap d ao jo logs where
      "trace w0 = trace w @ tr" "list_all (prelude env (apk_file = None)) tr"
      "\<And>f. apk_file = Some f \<Longrightarrow> ap = upload_name f"
      "process_apk_step5 env ap (path_stem ap) (TEMP_DIR env @ [d]) opts ao jo logs w0 = (r, w')"
proof -
  let ?h = "apk_file = None"
  note S = stopped and D = decoding
  from run[unfolded process_apk_def Let_def] show thesis
  proof (cases rule: io_bind_cases[OF emits_check_tools[of env ?h], consumes 1, case_names raise cont])
    case (raise e tr)
    with raisesD[OF raises_check_tools[of "\<lambda>_. False"] raise(2)] show ?thesis by simp
  next
    case c1: (cont x w1 t1)
    obtain tools_ok tool_logs where x: "x = (tools_ok, tool_logs)" by (cases x)
    note body = c1(4)[unfolded x prod.case]
    show ?thesis
    proof (cases "tools_ok")
      case False
      with body c1(2,3) stopped[of t1] show ?thesis by simp
    next
      case ok: True
      show ?thesis
      proof (cases apk_file)
        case (Some f)
        note b3 = body[simplified ok Some, simplified]
        from b3 show ?thesis
        proof (cases rule: step3_cases[where h = ?h])
          case (stopped e tr)
          with c1(2,3) Some os_error_not_gr[OF stopped(2)] S[of "t1 @ tr"] show ?thesis by auto
        next
          case (decoding w0 tr d ao jo logs1)
          with c1(2,3) Some D[of w0 "t1 @ tr" "upload_name f"] show ?thesis
            by auto
        qed
      next
        case None
        show ?thesis
        proof (cases "truthy apk_url")
          case False
          with body ok None c1(2,3) stopped[of t1] show ?thesis by simp
        next
          case True
          note b2 = body[simplified ok None True, simplified]
          have ep: "emits (prelude env ?h) (progress 0 ''Downloading APK...'')"
            by (rule emits_progress) simp
          from b2 show ?thesis
          proof (cases rule: io_bind_cases[OF ep, consumes 1, case_names raise cont])
            case (raise e tr)
            then show ?thesis by simp
          next
            case c2: (cont u w2 t2)
            have ed: "emits (prelude env ?h) (io_try (download_apk env (str_of apk_url)))"
              using emits_try[OF emits_download_apk] None by simp
            from c2(4) show ?thesis
            proof (cases rule: io_bind_cases[OF ed, consumes 1, case_names raise cont])
              case (raise e tr)
              then show ?thesis by (auto simp: io_try_def split: prod.splits)
            next
              case c3: (cont downloaded w3 t3)
              show ?thesis
              proof (cases downloaded)
                case (Inl e)
                with c3(2,3,4) c2(2,3) c1(2,3) None stopped[of "t1 @ t2 @ t3"] show ?thesis by simp
              next
                case (Inr apk_path)
                note b4 = c3(4)[unfolded Inr sum.case]
                from b4 show ?thesis
                proof (cases rule: step3_cases[where h = ?h])
                  case (stopped e tr)
                  with c1(2,3) c2(2,3) c3(2,3) None os_error_not_gr[OF stopped(2)] S[of "t1 @ t2 @ t3 @ tr"]
                  show ?thesis by auto
                next
                  case (decoding w0 tr d ao jo logs1)
                  with c1(2,3) c2(2,3) c3(2,3) None
                    D[of w0 "t1 @ t2 @ t3 @ tr" apk_path]
                  show ?thesis by auto
                qed
              qed
            qed
          qed
        qed
      qed
    qed
  qed
qed

lemma prelude_not_decode: "prelude env h (Popen cmd cwd res) \<Longrightarrow> \<not> is_decode env cmd"
  by (simp add: is_decode_def)


lemma is_decode_decode_command [simp]: "is_decode env (decode_command env ap pd ao)"
  by (simp add: is_decode_def)

text \<open>The three ways a run of \<open>process_apk\<close> can go.\<close>

lemma process_apk_run_cases:
  assumes run: "process_apk env apk_file apk_url opts w = (r, w')"
  obtains
    (stopped) tr where
      "new_events w w' = tr" "list_all (prelude env (apk_file = None)) tr"
      "\<And>m. r = Inl (GrError m) \<Longrightarrow> apk_file = None \<and> \<not> truthy apk_url"
  | (decode_failed) tr ap d ao res logs where
      "new_events w w' = (tr @ [decode_progress]) @ [Popen (decode_command env ap (TEMP_DIR env @ [d]) ao) None res]"
      "list_all (prelude env (apk_file = None)) (tr @ [decode_progress])"
      "\<And>f. apk_file = Some f \<Longrightarrow> ap = upload_name f"
      "failed res"
      "r = Inr (''Apktool failed.'', DownloadButton None False,
         join ''\<newline>'' ((logs @ [decode_header ao]) @
           [''Apktool STDOUT:\<newline>'' @ popen_out res, ''Apktool STDERR:\<newline>'' @ popen_err res]))"
  | (decoded) tr ap d ao jo res logs w2 t6 where
      "new_events w w' = (tr @ [decode_progress]) @ [Popen (decode_command env ap (TEMP_DIR env @ [d]) ao) None res] @ t6"
      "list_all (prelude env (apk_file = None)) (tr @ [decode_progress])"
      "\<And>f. apk_file = Some f \<Longrightarrow> ap = upload_name f"
      "\<not> failed res"
      "trace w' = trace w2 @ t6" "list_all (quiet env) t6"
      "process_apk_step6 env ap (path_stem ap) (TEMP_DIR env @ [d]) opts jo logs w2 = (r, w')"
  using run
proof (cases rule: process_apk_cases)
  case (stopped tr)
  with new_events_append[OF stopped(1)] that(1) show ?thesis by blast
next
  case (decoding w0 tr ap d ao jo logs)
  from decoding(4) show ?thesis
  proof (cases rule: step5_cases)
    case (1 res n w2)
    have tw2: "trace w2 = trace w @ (tr @ [decode_progress]) @
        [Popen (decode_command env ap (TEMP_DIR env @ [d]) ao) None res]"
      using 1(1) decoding(1) by simp
    have pre: "list_all (prelude env (apk_file = None)) (tr @ [decode_progress])"
      using decoding(2) by simp
    show ?thesis
    proof (cases "failed res")
      case True
      with 1(2) have "w' = w2" and r: "r = Inr (''Apktool failed.'', DownloadButton None False,
         join ''\<newline>'' ((logs @ [decode_header ao]) @
           [''Apktool STDOUT:\<newline>'' @ popen_out res, ''Apktool STDERR:\<newline>'' @ popen_err res]))"
        by auto
      with tw2 have "new_events w w' = (tr @ [decode_progress]) @
          [Popen (decode_command env ap (TEMP_DIR env @ [d]) ao) None res]"
        by (simp add: new_events_def)
      from that(2)[OF this pre decoding(3) True r] show ?thesis .
    next
      case False
      note s6 = 1(3)[OF False]
      from emitsD[OF emits_step6 s6] obtain t6 where
        t6: "trace w' = trace w2 @ t6" "list_all (quiet env) t6" by blast
      with tw2 have "new_events w w' = (tr @ [decode_progress]) @
          [Popen (decode_command env ap (TEMP_DIR env @ [d]) ao) None res] @ t6"
        by (simp add: new_events_def)
      from that(3)[OF this pre decoding(3) False t6 s6] show ?thesis .
    qed
  qed
qed

lemma quiet_not_decode: "quiet env (Popen cmd cwd res) \<Longrightarrow> \<not> is_decode env cmd"
  by simp

lemma failed_Inr [simp]: "failed (Inr (rc, out, err)) \<longleftrightarrow> rc \<noteq> 0"
  by (simp add: failed_def)

lemma popen_out_Inr [simp]: "popen_out (Inr (rc, out, err)) = out"
  by (simp add: popen_out_def)

lemma popen_err_Inr [simp]: "popen_err (Inr (rc, out, err)) = err"
  by (simp add: popen_err_def)

text \<open>
  Claim C1. Whenever a run of \<open>process_apk\<close> has started the decode (a process whose
  command line begins \<^verbatim>\<open>java -jar apktool.jar d\<close>) and that process has exited with a
  non-zero return code, the run returns the status \<^verbatim>\<open>Apktool failed.\<close> with a hidden
  download button and a log that ends with the captured standard output and standard
  error. The decode is the last thing the run did, and everything before it belongs to
  the check of the tools, the download and the set-up of the project directory: no
  patch, no analysis, no decompiler, no archive written.
\<close>

theorem decode_failure_is_fatal:
  assumes run: "process_apk env apk_file apk_url decode_options w = (r, w')"
      and ev: "Popen cmd cwd (Inr (returncode, out, err)) \<in> set (new_events w w')"
      and dec: "is_decode env cmd"
      and nz: "returncode \<noteq> 0"
  shows "\<exists>before lines.
           r = Inr (''Apktool failed.'', DownloadButton None False,
                 join ''\<newline>'' (lines @ [''Apktool STDOUT:\<newline>'' @ out, ''Apktool STDERR:\<newline>'' @ err]))
         \<and> new_events w w' = before @ [Popen cmd cwd (Inr (returncode, out, err))]
         \<and> list_all (prelude env (apk_file = None)) before"
  using run
proof (cases rule: process_apk_run_cases)
  case (stopped tr)
  with ev dec prelude_not_decode show ?thesis
    by (auto simp: list_all_iff)
next
  case (decode_failed tr ap d ao res logs)
  from ev decode_failed(1,2) dec prelude_not_decode
  have "Popen cmd cwd (Inr (returncode, out, err)) =
        Popen (decode_command env ap (TEMP_DIR env @ [d]) ao) None res"
    by (auto simp: list_all_iff)
  then have res: "res = Inr (returncode, out, err)"
    and same: "Popen (decode_command env ap (TEMP_DIR env @ [d]) ao) None res
        = Popen cmd cwd (Inr (returncode, out, err))"
    by simp_all
  from decode_failed(1,2,5) show ?thesis
    unfolding same unfolding res
    by (intro exI[of _ "tr @ [decode_progress]"] exI[of _ "logs @ [decode_header ao]"]) simp
next
  case (decoded tr ap d ao jo res logs w2 t6)
  from ev decoded(1,2,6) dec prelude_not_decode quiet_not_decode
  have "Popen cmd cwd (Inr (returncode, out, err)) =
        Popen (decode_command env ap (TEMP_DIR env @ [d]) ao) None res"
    by (auto simp: list_all_iff)
  with decoded(4) nz show ?thesis by auto
qed



section \<open>Runs of the example installation\<close>

lemma demo_failed_run_events:
  "new_events demo_start (snd demo_failed_run)
   = [Popen [''java'', ''--version''] None (Inr (0, ''out'', ''err'')),
      Makedirs [''app'', ''temp'', ''sample-decompiled-01234567''],
      Progress (2 / 10) ''Decompiling with Apktool...'',
      Popen demo_decode_command None (Inr (1, ''out'', ''err''))]"
  by code_simp

lemma demo_is_decode: "is_decode (demo_env rc) demo_decode_command"
  by (simp add: is_decode_def demo_decode_command_def demo_env_def APKTOOL_PATH_def TOOLS_DIR_def
      path_str_def)

theorem decode_failure_is_fatal_witness:
  "Popen demo_decode_command None (Inr (1, ''out'', ''err'')) \<in> set (new_events demo_start (snd demo_failed_run))
   \<and> is_decode (demo_env decode_fails) demo_decode_command
   \<and> (\<exists>before lines.
         fst demo_failed_run = Inr (''Apktool failed.'', DownloadButton None False,
            join ''\<newline>'' (lines @ [''Apktool STDOUT:\<newline>'' @ ''out'', ''Apktool STDERR:\<newline>'' @ ''err'']))
       \<and> new_events demo_start (snd demo_failed_run)
           = before @ [Popen demo_decode_command None (Inr (1, ''out'', ''err''))]
       \<and> list_all (prelude (demo_env decode_fails) False) before)"
proof -
  have run: "process_apk (demo_env decode_fails) (Some demo_upload) None [] demo_start
      = (fst demo_failed_run, snd demo_failed_run)"
    by (simp add: demo_failed_run_def)
  have ev: "Popen demo_decode_command None (Inr (1, ''out'', ''err''))
      \<in> set (new_events demo_start (snd demo_failed_run))"
    by (simp add: demo_failed_run_events)
  have nz: "(1::int) \<noteq> 0" by simp
  from decode_failure_is_fatal[OF run ev demo_is_decode nz] ev demo_is_decode
  show ?thesis by simp
qed







text \<open>
  Claim C4. When the project archive or the keystore file is missing, or one of the
  keystore password, the alias and the key password is \<^verbatim>\<open>None\<close> or empty,
  \<open>rebuild_and_sign_apk\<close> raises an input error and leaves the state as it was: the file
  system is unchanged and the trace has no new event, so no directory was created,
  nothing was unpacked and no process was started.
\<close>

theorem rebuild_rejects_missing_inputs:
  assumes "project_zip = None \<or> keystore_file = None
           \<or> \<not> truthy ks_pass \<or> \<not> truthy alias \<or> \<not> truthy key_pass"
  shows "\<exists>msg. rebuild_and_sign_apk env project_zip build_options keystore_file ks_pass alias key_pass w
           = (Inl (GrError msg), w)"
  using assms
  by (auto simp: rebuild_and_sign_apk_def split: option.splits)

theorem rebuild_rejects_missing_inputs_witness:
  "\<not> truthy (Some [])
   \<and> (\<exists>msg. rebuild_and_sign_apk (demo_env all_succeed) (Some demo_upload) [] (Some demo_upload)
               (Some ''secret'') (Some []) (Some ''secret'') demo_start
             = (Inl (GrError msg), demo_start))
   \<and> (\<exists>msg. rebuild_and_sign_apk (demo_env all_succeed) None [] (Some demo_upload)
               (Some ''secret'') (Some ''key'') (Some ''secret'') demo_start
             = (Inl (GrError msg), demo_start))"
proof -
  have e: "\<not> truthy (Some [])" by (simp add: truthy_def)
  from rebuild_rejects_missing_inputs[of "Some demo_upload" "Some demo_upload" "Some ''secret''"
      "Some []" "Some ''secret''" "demo_env all_succeed" "[]" demo_start]
    rebuild_rejects_missing_inputs[of None "Some demo_upload" "Some ''secret''"
      "Some ''key''" "Some ''secret''" "demo_env all_succeed" "[]" demo_start] e
  show ?thesis by simp
qed

text \<open>
  Claim C6. The claim is that a working directory is removed also when the run fails
  fatally. In the run below the decode exits with return code \<open>1\<close>: \<open>process_apk\<close> returns
  \<^verbatim>\<open>Apktool failed.\<close> and the project directory it created is still there (the failure
  branch of step 5 returns without \<^verbatim>\<open>shutil.rmtree\<close>).
\<close>

theorem failed_decode_leaves_project_directory:
  "fst demo_failed_run = Inr (''Apktool failed.'', DownloadButton None False,
       ''--- Tool Check ---\<newline>Java Version:\<newline>outerr\<newline>apktool.jar found.\<newline>uber-apk-signer.jar found.\<newline>JADX found.\<newline>Processing uploaded file: /uploads/sample.apk\<newline>Created project directory: /app/temp/sample-decompiled-01234567\<newline>\<newline>--- Apktool Decompilation ---\<newline>Running with options: \<newline>Apktool STDOUT:\<newline>out\<newline>Apktool STDERR:\<newline>err'')
   \<and> is_dir (fs (snd demo_failed_run)) [''app'', ''temp'', ''sample-decompiled-01234567'']
   \<and> \<not> is_dir (fs demo_start) [''app'', ''temp'', ''sample-decompiled-01234567'']"
  by code_simp

lemma raises_file_append: "raises os_error (file_append p s)"
  unfolding file_append_def append_file_def
  by (auto intro!: raises_fs_op elim!: alter_os_error split: option.splits node.splits content.splits)

lemma download_loop_no_total:
  "\<exists>e w'. download_loop apk_path 0 (chunk # rest) n w = (Inl e, w')
      \<and> (e = ZeroDivisionError \<or> os_error e)"
proof (cases "file_append apk_path chunk w")
  case (Pair r w1)
  show ?thesis
  proof (cases r)
    case (Inl e)
    with Pair raisesD[OF raises_file_append] have "os_error e"
      by blast
    with Pair Inl show ?thesis
      by (simp add: io_bind_def)
  next
    case (Inr u)
    with Pair show ?thesis
      by (simp add: io_bind_def truediv_def io_raise_def Let_def)
  qed
qed

text \<open>
  Claim C7. The claim is that a download whose response has no \<^verbatim>\<open>content-length\<close>
  header still returns the local path. In the code \<^verbatim>\<open>total_size\<close> is then \<open>0\<close>, and the
  first chunk written is followed by \<^verbatim>\<open>bytes_downloaded / total_size\<close>: when the body has
  at least one chunk, \<open>download_apk\<close> raises, \<^verbatim>\<open>ZeroDivisionError\<close> unless opening or
  writing the file failed before.
\<close>

theorem download_without_content_length_raises:
  assumes get: "requests_get env url w = Inr resp"
      and status: "http_error resp = None"
      and header: "content_length resp = None"
      and body: "chunks resp \<noteq> []"
  shows "\<exists>e w'. download_apk env url w = (Inl e, w') \<and> (e = ZeroDivisionError \<or> os_error e)"
proof -
  let ?name = "last (split_on CHR ''/'' url)"
  let ?path = "TEMP_DIR env @ [if \<not> endswith ?name ''.apk'' then ''downloaded.apk'' else ?name]"
  from body obtain c cs where cs: "chunks resp = c # cs"
    by (cases "chunks resp") auto
  show ?thesis
  proof (cases "open_write ?path (Raw []) (emit (HttpGet url) w)")
    case (Pair r w1)
    show ?thesis
    proof (cases r)
      case (Inl e)
      with Pair raisesD[OF raises_fs_ops(2)] have "os_error e"
        by blast
      with Pair Inl get status header show ?thesis
        by (cases e) (simp_all add: download_apk_def io_catch_def io_bind_def io_ret_def io_raise_def Let_def)
    next
      case (Inr u)
      from download_loop_no_total[of ?path c cs 0 w1] obtain e w2 where
        loop: "download_loop ?path 0 (c # cs) 0 w1 = (Inl e, w2)" and e: "e = ZeroDivisionError \<or> os_error e"
        by blast
      from e Pair Inr get status header cs loop show ?thesis
        by (cases e) (simp_all add: download_apk_def io_catch_def io_bind_def io_ret_def io_raise_def Let_def)
    qed
  qed
qed

theorem download_without_content_length_raises_witness:
  "requests_get (demo_env all_succeed) ''http://host/sample.apk'' demo_start
     = Inr \<lparr>http_error = None, content_length = None, chunks = [''PK'']\<rparr>
   \<and> fst (download_apk (demo_env all_succeed) ''http://host/sample.apk'' demo_start)
       = Inl ZeroDivisionError
   \<and> fst (process_apk (demo_env all_succeed) None (Some ''http://host/sample.apk'') [] demo_start)
       = Inr (''Error downloading APK: division by zero'', DownloadButton None False,
            ''--- Tool Check ---\<newline>Java Version:\<newline>outerr\<newline>apktool.jar found.\<newline>uber-apk-signer.jar found.\<newline>JADX found.\<newline>Downloading APK from URL: http://host/sample.apk'')"
proof -
  have get: "requests_get (demo_env all_succeed) ''http://host/sample.apk'' demo_start
     = Inr \<lparr>http_error = None, content_length = None, chunks = [''PK'']\<rparr>"
    by (simp add: demo_env_def)
  have run: "fst (download_apk (demo_env all_succeed) ''http://host/sample.apk'' demo_start)
       = Inl ZeroDivisionError"
    by code_simp
  have all: "fst (process_apk (demo_env all_succeed) None (Some ''http://host/sample.apk'') [] demo_start)
       = Inr (''Error downloading APK: division by zero'', DownloadButton None False,
            ''--- Tool Check ---\<newline>Java Version:\<newline>outerr\<newline>apktool.jar found.\<newline>uber-apk-signer.jar found.\<newline>JADX found.\<newline>Downloading APK from URL: http://host/sample.apk'')"
    by code_simp
  from download_without_content_length_raises[OF get] get run all
  show ?thesis by simp
qed

section \<open>The rebuild\<close>

lemma split_on_not_Nil [simp]: "split_on sep s \<noteq> []"
  by (induction s) (auto split: list.splits)















lemma demo_rebuild_events:
  "new_events demo_rebuild_start (snd demo_rebuild_run) =
    [Makedirs [''app'', ''temp'', ''rebuild-01234567''],
     Makedirs [''app'', ''temp'', ''rebuild-out-01234567''],
     Progress (1 / 10) ''Unzipping project...'',
     FileWrite [''app'', ''temp'', ''rebuild-01234567'', ''AndroidManifest.xml''] (Raw ''<manifest/>''),
     Makedirs [''app'', ''temp'', ''rebuild-01234567'', ''res'', ''values''],
     FileWrite [''app'', ''temp'', ''rebuild-01234567'', ''res'', ''values'', ''strings.xml'']
       (Raw ''<resources/>''),
     Progress (3 / 10) ''Rebuilding with Apktool...'',
     Popen [''java'', ''-jar'', ''/app/tools/apktool.jar'', ''b'', ''/app/temp/rebuild-01234567'', ''-o'',
            ''/app/temp/rebuild-out-01234567/rebuilt-unsigned.apk'', ''--use-aapt2'']
       None (Inr (0, ''out'', ''err'')),
     Progress (8 / 10) ''Signing APK...'',
     Popen [''java'', ''-jar'', ''/app/tools/uber-apk-signer.jar'', ''--apks'',
            ''/app/temp/rebuild-out-01234567/rebuilt-unsigned.apk'', ''--ks'',
            ''/uploads/release.jks'', ''--ksPass'', ''secret'', ''--ksAlias'', ''key'',
            ''--keyPass'', ''secret'']
       None (Inr (0, ''out'', ''err'')),
     Move [''app'', ''temp'', ''rebuild-out-01234567'', ''rebuilt-unsigned-aligned-signed.apk'']
          [''app'', ''downloads'', ''sample-decompiled-signed.apk''],
     Rmtree [''app'', ''temp'', ''rebuild-01234567''],
     Rmtree [''app'', ''temp'', ''rebuild-out-01234567'']]"
  by code_simp



end
